theory Spec2Isabelle
  imports Complex_Main
begin

section \<open>JavaScript values used by the adapters\<close>

text \<open>
  A JavaScript number is an IEEE-754 double: \<open>NaN\<close>, one of the two infinities, or a
  finite value, kept here as the rational it denotes (every double is one; the sign of
  a zero is not kept). A field that may be absent is an \<open>option\<close>, \<open>None\<close> standing for
  \<open>undefined\<close>.
\<close>

datatype jsnum = NaN | PInf | NInf | Num rat

text \<open>A scalar value, as stored under a key of the open metadata mapping or passed
  through from a provider's reply.\<close>

datatype jsval = JUndefined | JNull | JBool bool | JNum jsnum | JStr string

text \<open>\<open>!x\<close> is false exactly on the truthy values: a number other than 0 and NaN, a
  non-empty string.\<close>

fun truthy_num :: "jsnum option \<Rightarrow> bool" where
  "truthy_num None = False"
| "truthy_num (Some NaN) = False"
| "truthy_num (Some (Num x)) = (x \<noteq> 0)"
| "truthy_num (Some PInf) = True"
| "truthy_num (Some NInf) = True"

fun truthy_str :: "string option \<Rightarrow> bool" where
  "truthy_str None = False"
| "truthy_str (Some s) = (s \<noteq> [])"

text \<open>\<open>x <= 0\<close>: false on \<open>undefined\<close> and on \<open>NaN\<close>.\<close>

fun js_le_zero :: "jsnum option \<Rightarrow> bool" where
  "js_le_zero (Some (Num x)) = (x \<le> 0)"
| "js_le_zero (Some NInf) = True"
| "js_le_zero _ = False"

subsection \<open>Arithmetic on doubles\<close>

text \<open>
  The result of an arithmetic operation is the exact result rounded to the nearest
  double, ties to the even significand. \<open>exponent x\<close> is the integer \<open>e\<close> with
  \<open>2^e \<le> |x| < 2^(e+1)\<close>; a double has 53 significant bits, so the spacing of the
  doubles around \<open>x\<close> is \<open>2^(e - 52)\<close>, and \<open>2^-1074\<close> in the subnormal range; a result
  of magnitude \<open>2^1024\<close> or more is an infinity.
\<close>

function bits :: "nat \<Rightarrow> nat" where
  "bits n = (if n = 0 then 0 else Suc (bits (n div 2)))"
  by pat_completeness auto
termination
  by (relation "measure id") auto

declare bits.simps [simp del]

definition pow2 :: "int \<Rightarrow> rat" where
  "pow2 e = (if 0 \<le> e then 2 ^ nat e else 1 / 2 ^ nat (- e))"

definition exponent :: "rat \<Rightarrow> int" where
  "exponent x =
     (let a = \<bar>x\<bar> in
      if 1 \<le> a then int (bits (nat \<lfloor>a\<rfloor>)) - 1
      else
        let k = int (bits (nat \<lfloor>1 / a\<rfloor>)) - 1
        in if pow2 k = 1 / a then - k else - k - 1)"

definition round_half_even :: "rat \<Rightarrow> int" where
  "round_half_even x =
     (let f = \<lfloor>x\<rfloor>; r = x - of_int f
      in if r < 1 / 2 then f
         else if 1 / 2 < r then f + 1
         else if even f then f else f + 1)"

definition round_double :: "rat \<Rightarrow> jsnum" where
  "round_double x =
     (if x = 0 then Num 0
      else
        let e = max (exponent x - 52) (- 1074);
            m = round_half_even (\<bar>x\<bar> / pow2 e);
            y = of_int m * pow2 e
        in if pow2 1024 \<le> y then (if 0 < x then PInf else NInf)
           else Num (if 0 < x then y else - y))"

text \<open>\<open>x * 100\<close> and \<open>x / 100\<close>; \<open>undefined\<close> and \<open>NaN\<close> give \<open>NaN\<close>, an infinity stays
  what it is.\<close>

fun js_times100 :: "jsnum option \<Rightarrow> jsnum" where
  "js_times100 (Some (Num x)) = round_double (x * 100)"
| "js_times100 (Some PInf) = PInf"
| "js_times100 (Some NInf) = NInf"
| "js_times100 _ = NaN"

fun js_div100 :: "jsnum option \<Rightarrow> jsnum" where
  "js_div100 (Some (Num x)) = round_double (x / 100)"
| "js_div100 (Some PInf) = PInf"
| "js_div100 (Some NInf) = NInf"
| "js_div100 _ = NaN"

subsection \<open>Strings\<close>

text \<open>\<open>toLowerCase\<close> and \<open>toUpperCase\<close> on the ASCII letters (a string is a list of
  bytes). They are JavaScript's on an ASCII string, as the class names are; elsewhere
  JavaScript folds by the Unicode tables. The adapters apply them to their class name
  and to the currency code.\<close>

definition lower_char :: "char \<Rightarrow> char" where
  "lower_char c =
     (let n = (of_char c :: nat) in if 65 \<le> n \<and> n \<le> 90 then char_of (n + 32) else c)"

definition upper_char :: "char \<Rightarrow> char" where
  "upper_char c =
     (let n = (of_char c :: nat) in if 97 \<le> n \<and> n \<le> 122 then char_of (n - 32) else c)"

definition toLowerCase :: "string \<Rightarrow> string" where
  "toLowerCase s = map lower_char s"

definition toUpperCase :: "string \<Rightarrow> string" where
  "toUpperCase s = map upper_char s"

text \<open>\<open>Array.prototype.join\<close>.\<close>

fun join :: "string \<Rightarrow> string list \<Rightarrow> string" where
  "join sep [] = []"
| "join sep [x] = x"
| "join sep (x # y # ys) = x @ sep @ join sep (y # ys)"

text \<open>\<open>Number.prototype.toString(36)\<close> on a non-negative integer.\<close>

definition digit36 :: "nat \<Rightarrow> char" where
  "digit36 d = ''0123456789abcdefghijklmnopqrstuvwxyz'' ! d"

function toString36 :: "nat \<Rightarrow> string" where
  "toString36 n =
     (if n < 36 then [digit36 n] else toString36 (n div 36) @ [digit36 (n mod 36)])"
  by pat_completeness auto
termination
  by (relation "measure id") auto

declare toString36.simps [simp del]

text \<open>The decimal rendering of a non-negative integer inside a template literal.\<close>

function toString10 :: "nat \<Rightarrow> string" where
  "toString10 n =
     (if n < 10 then [digit36 n] else toString10 (n div 10) @ [digit36 (n mod 10)])"
  by pat_completeness auto
termination
  by (relation "measure id") auto

declare toString10.simps [simp del]

text \<open>\<open>a || b\<close> on strings, and an \<open>undefined\<close> inside a template literal.\<close>

fun str_or :: "string option \<Rightarrow> string \<Rightarrow> string" where
  "str_or None d = d"
| "str_or (Some s) d = (if s = [] then d else s)"

fun template_str :: "string option \<Rightarrow> string" where
  "template_str None = ''undefined''"
| "template_str (Some s) = s"

text \<open>The number a base-36 numeral denotes, to say what \<open>toString36\<close> encodes.\<close>

definition digit36_value :: "char \<Rightarrow> nat" where
  "digit36_value c =
     length (takeWhile (\<lambda>x. x \<noteq> c) ''0123456789abcdefghijklmnopqrstuvwxyz'')"

definition base36_value :: "string \<Rightarrow> nat" where
  "base36_value s = foldl (\<lambda>acc c. acc * 36 + digit36_value c) 0 s"

text \<open>\<open>s.substr(2, 5)\<close>: at most five characters from index 2.\<close>

definition substr_2_5 :: "string \<Rightarrow> string" where
  "substr_2_5 s = take 5 (drop 2 s)"

section \<open>The environment and the world\<close>

text \<open>
  The adapters read the clock (\<open>Date.now()\<close>, \<open>new Date()\<close>) and \<open>Math.random()\<close>, and
  call a provider over the network. The environment gives the value of the k-th read of
  the clock (in milliseconds) and the base-36 rendering \<open>Math.random().toString(36)\<close>
  of the k-th random number (\<open>0.\<close> followed by its base-36 digits: \<open>0.i\<close> for 0.5);
  the world counts the reads made so far and logs every call handed to the provider
  transport and every call into the signature library.
\<close>

record env =
  date_now :: "nat \<Rightarrow> nat"
  random_b36 :: "nat \<Rightarrow> string"

record 'c world =
  clock_reads :: nat
  random_reads :: nat
  net_calls :: "'c list"
  crypto_calls :: nat

definition read_clock :: "env \<Rightarrow> 'c world \<Rightarrow> nat \<times> 'c world" where
  "read_clock E w = (date_now E (clock_reads w), w\<lparr>clock_reads := Suc (clock_reads w)\<rparr>)"

definition read_random :: "env \<Rightarrow> 'c world \<Rightarrow> string \<times> 'c world" where
  "read_random E w =
     (random_b36 E (random_reads w), w\<lparr>random_reads := Suc (random_reads w)\<rparr>)"

section \<open>BaseGatewayAdapter\<close>

text \<open>The payment request, with the fields either adapter reads.\<close>

record paymentData =
  amount :: "jsnum option"
  currency :: "string option"
  customerEmail :: "string option"
  description :: "string option"
  paymentMethodId :: "string option"
  paymentIntentId :: "string option"
  callbackUrl :: "string option"
  channel :: "string option"
  metadata :: "string \<rightharpoonup> jsval"

record validation =
  isValid :: bool
  errors :: "string list"

text \<open>\<open>!paymentData[field]\<close>; only the two required fields are ever asked for.\<close>

definition field_missing :: "paymentData \<Rightarrow> string \<Rightarrow> bool" where
  "field_missing p field =
     (if field = ''amount'' then \<not> truthy_num (amount p)
      else if field = ''currency'' then \<not> truthy_str (currency p)
      else True)"

definition validatePaymentData :: "paymentData \<Rightarrow> validation" where
  "validatePaymentData p =
     (let required = [''amount'', ''currency''];
          missing = filter (field_missing p) required
      in if length missing > 0
         then \<lparr>isValid = False, errors = map (\<lambda>field. field @ '' is required'') missing\<rparr>
         else if js_le_zero (amount p)
         then \<lparr>isValid = False, errors = [''amount must be greater than 0'']\<rparr>
         else \<lparr>isValid = True, errors = []\<rparr>)"

text \<open>A thrown \<open>Error\<close>: \<open>new Error(msg)\<close> has neither \<open>code\<close> nor \<open>details\<close>.\<close>

record js_error =
  e_message :: string
  e_code :: "string option"
  e_details :: "string option"

definition new_Error :: "string \<Rightarrow> js_error" where
  "new_Error msg = \<lparr>e_message = msg, e_code = None, e_details = None\<rparr>"

record error_body =
  message :: string
  code :: string
  details :: "string option"

text \<open>The unified envelope: \<open>success\<close> is true on the first shape, false on the second.
  The \<open>timestamp\<close> is kept as the clock reading in milliseconds; its rendering by
  \<open>toISOString\<close> is left out.\<close>

datatype 'r unified =
    UnifiedResponse (gateway: string) (gatewayResponse: 'r) (timestamp: nat)
      (unifiedId: string)
  | UnifiedError (gateway: string) (error: error_body) (timestamp: nat)
      (unifiedId: string)

fun success :: "'r unified \<Rightarrow> bool" where
  "success (UnifiedResponse g r t u) = True"
| "success (UnifiedError g e t u) = False"

definition generateUnifiedId :: "string \<Rightarrow> env \<Rightarrow> 'c world \<Rightarrow> string \<times> 'c world" where
  "generateUnifiedId gatewayName E w =
     (let (now, w1) = read_clock E w;
          stamp = toString36 now;
          (r, w2) = read_random E w1;
          random = substr_2_5 r
      in (''unified_'' @ toLowerCase gatewayName @ ''_'' @ stamp @ ''_'' @ random, w2))"

definition formatResponse ::
  "string \<Rightarrow> env \<Rightarrow> 'r \<Rightarrow> 'c world \<Rightarrow> 'r unified \<times> 'c world" where
  "formatResponse gatewayName E resp w =
     (let (now, w1) = read_clock E w;
          (uid, w2) = generateUnifiedId gatewayName E w1
      in (UnifiedResponse (toLowerCase gatewayName) resp now uid, w2))"

text \<open>\<open>error.code || "UNKNOWN_ERROR"\<close> and \<open>error.details || null\<close>.\<close>

definition formatError ::
  "string \<Rightarrow> env \<Rightarrow> js_error \<Rightarrow> 'c world \<Rightarrow> 'r unified \<times> 'c world" where
  "formatError gatewayName E err w =
     (let (now, w1) = read_clock E w;
          (uid, w2) = generateUnifiedId gatewayName E w1
      in (UnifiedError (toLowerCase gatewayName)
            \<lparr>message = e_message err,
             code = str_or (e_code err) ''UNKNOWN_ERROR'',
             details = (if truthy_str (e_details err) then e_details err else None)\<rparr>
            now uid, w2))"

section \<open>PaystackAdapter\<close>

text \<open>The constructor's \<open>config\<close> object and the process environment.\<close>

record config =
  secretKey :: string
  publicKey :: "string option"
  publishableKey :: "string option"
  webhookSecret :: "string option"

record process_env =
  STRIPE_SECRET_KEY :: "string option"
  STRIPE_PUBLISHABLE_KEY :: "string option"
  STRIPE_WEBHOOK_SECRET :: "string option"
  PAYSTACK_SECRET_KEY :: "string option"
  PAYSTACK_PUBLIC_KEY :: "string option"
  BASE_URL :: "string option"

text \<open>What is sent: the two request payloads and the HTTP request given to \<open>fetch\<close>.
  Where two objects of the source have a key of the same name, the field carries a
  prefix for its object (\<open>tx_amount\<close> is the \<open>amount\<close> of \<open>transactionData\<close>). The body
  of a request is kept as the object handed to \<open>JSON.stringify\<close>, not as its text.\<close>

record transactionData =
  tx_amount :: jsnum
  tx_email :: string
  tx_currency :: string
  tx_reference :: string
  tx_callback_url :: string
  tx_metadata :: "string \<rightharpoonup> jsval"
  tx_channels :: "string list option"

record refundDataPayload =
  rp_transaction :: string
  rp_amount :: "jsnum option"
  rp_reason :: string

datatype paystack_body = InitializeBody transactionData | RefundBody refundDataPayload

record http_request =
  url :: string
  http_method :: string
  authorization :: string
  content_type :: string
  body :: "paystack_body option"

text \<open>What comes back: \<open>fetch\<close> or \<open>response.json()\<close> rejects with a message, or there is
  a response with its \<open>ok\<close> flag, its status and its parsed body \<open>{message, data}\<close>.\<close>

record paystack_data =
  d_id :: jsval
  d_reference :: jsval
  d_authorization_url :: jsval
  d_access_code :: jsval
  d_status :: jsval
  d_amount :: "jsnum option"
  d_currency :: jsval
  d_gateway :: jsval
  d_channel :: jsval
  d_paid_at :: jsval
  d_created_at :: jsval

record paystack_result =
  res_message :: "string option"
  res_data :: "paystack_data option"

datatype fetch_outcome = FetchRejected string | FetchResponse bool nat paystack_result

text \<open>The three shapes of \<open>gatewayResponse\<close>.\<close>

record payment_response =
  pr_transactionId :: jsval
  pr_reference :: jsval
  pr_authorizationUrl :: jsval
  pr_accessCode :: jsval
  pr_status :: string
  pr_amount :: "jsnum option"
  pr_currency :: "string option"

record refund_response =
  rr_refundId :: jsval
  rr_status :: jsval
  rr_amount :: jsnum
  rr_currency :: jsval
  rr_reference :: jsval

record status_response =
  sr_status :: jsval
  sr_amount :: jsnum
  sr_currency :: jsval
  sr_reference :: jsval
  sr_gateway :: jsval
  sr_channel :: jsval
  sr_paidAt :: jsval
  sr_createdAt :: jsval

datatype paystack_response =
    PaymentResponse payment_response
  | RefundResponse refund_response
  | StatusResponse status_response

record refundData =
  transactionReference :: "string option"
  rf_paymentIntentId :: "string option"
  rf_amount :: "jsnum option"
  reason :: "string option"

type_synonym paystack_world = "http_request world"

text \<open>\<open>gatewayName\<close> is \<open>this.constructor.name\<close>, the name of the class.\<close>

definition paystack_name :: string where
  "paystack_name = ''PaystackAdapter''"

definition baseUrl :: string where
  "baseUrl = ''https://api.paystack.co''"

text \<open>\<open>makeRequest\<close>: the request is handed to \<open>fetch\<close> (and logged); every failure
  leaves as \<open>Error("Paystack request failed: ...")\<close>.\<close>

definition makeRequest ::
  "config \<Rightarrow> (http_request \<Rightarrow> fetch_outcome) \<Rightarrow> string \<Rightarrow> string \<Rightarrow> paystack_body option \<Rightarrow>
   paystack_world \<Rightarrow> (js_error + paystack_result) \<times> paystack_world" where
  "makeRequest C fetch endpoint method data w =
     (let req = \<lparr>url = baseUrl @ endpoint, http_method = method,
                 authorization = ''Bearer '' @ secretKey C,
                 content_type = ''application/json'',
                 body = (if data \<noteq> None \<and> (method = ''POST'' \<or> method = ''PUT'')
                         then data else None)\<rparr>;
          w1 = w\<lparr>net_calls := net_calls w @ [req]\<rparr>
      in case fetch req of
           FetchRejected msg \<Rightarrow> (Inl (new_Error (''Paystack request failed: '' @ msg)), w1)
         | FetchResponse ok status result \<Rightarrow>
             if \<not> ok
             then (Inl (new_Error (''Paystack request failed: '' @
                     str_or (res_message result)
                       (''Paystack API error: '' @ toString10 status))), w1)
             else (Inr result, w1))"

text \<open>Reading \<open>transaction.data.id\<close> when the reply has no \<open>data\<close> is a TypeError.\<close>

definition no_data_error :: js_error where
  "no_data_error = new_Error ''Cannot read properties of undefined (reading 'id')''"

text \<open>The body of \<open>try\<close> in \<open>processPayment\<close>. After the two guards \<open>customerEmail\<close> and
  \<open>currency\<close> are non-empty strings, so \<open>the\<close> reads a value that is there.\<close>

definition paystack_processPayment_try ::
  "config \<Rightarrow> process_env \<Rightarrow> env \<Rightarrow> (http_request \<Rightarrow> fetch_outcome) \<Rightarrow> paymentData \<Rightarrow>
   paystack_world \<Rightarrow> (js_error + paystack_response unified) \<times> paystack_world" where
  "paystack_processPayment_try C P E fetch p w =
     (let validation = validatePaymentData p in
      if \<not> isValid validation
      then (Inl (new_Error (''Validation failed: '' @ join '', '' (errors validation))), w)
      else if \<not> truthy_str (customerEmail p)
      then (Inl (new_Error ''customerEmail is required for Paystack payments''), w)
      else
        let (ref, w1) = generateUnifiedId paystack_name E w;
            (upid, w2) = generateUnifiedId paystack_name E w1;
            td = \<lparr>tx_amount = js_times100 (amount p),
                  tx_email = the (customerEmail p),
                  tx_currency = toUpperCase (the (currency p)),
                  tx_reference = ref,
                  tx_callback_url =
                    str_or (callbackUrl p)
                      (template_str (BASE_URL P) @ ''/api/payments/callback''),
                  tx_metadata =
                    [''unified_payment_id'' \<mapsto> JStr upid,
                     ''customer_email'' \<mapsto> JStr (the (customerEmail p))] ++ metadata p,
                  tx_channels =
                    (if truthy_str (channel p) then Some [the (channel p)] else None)\<rparr>;
            (r, w3) = makeRequest C fetch ''/transaction/initialize'' ''POST''
                        (Some (InitializeBody td)) w2
        in case r of
             Inl e \<Rightarrow> (Inl e, w3)
           | Inr transaction \<Rightarrow>
               (case res_data transaction of
                  None \<Rightarrow> (Inl no_data_error, w3)
                | Some d \<Rightarrow>
                    let (u, w4) = formatResponse paystack_name E
                          (PaymentResponse
                             \<lparr>pr_transactionId = d_id d,
                              pr_reference = d_reference d,
                              pr_authorizationUrl = d_authorization_url d,
                              pr_accessCode = d_access_code d,
                              pr_status = ''pending'',
                              pr_amount = amount p,
                              pr_currency = currency p\<rparr>) w3
                    in (Inr u, w4)))"

text \<open>\<open>catch (error) { return this.formatError(error) }\<close>, shared by the methods.\<close>

definition catch_formatError ::
  "string \<Rightarrow> env \<Rightarrow> (js_error + 'r unified) \<times> 'c world \<Rightarrow> 'r unified \<times> 'c world" where
  "catch_formatError gatewayName E r =
     (case r of
        (Inl e, w) \<Rightarrow> formatError gatewayName E e w
      | (Inr u, w) \<Rightarrow> (u, w))"

definition paystack_processPayment ::
  "config \<Rightarrow> process_env \<Rightarrow> env \<Rightarrow> (http_request \<Rightarrow> fetch_outcome) \<Rightarrow> paymentData \<Rightarrow>
   paystack_world \<Rightarrow> paystack_response unified \<times> paystack_world" where
  "paystack_processPayment C P E fetch p w =
     catch_formatError paystack_name E (paystack_processPayment_try C P E fetch p w)"

text \<open>\<open>processRefund\<close>: the amount is sent times 100 when one is given
  (\<open>refundData.amount ? refundData.amount * 100 : undefined\<close>), and the provider's amount is
  reported divided by 100.\<close>

definition paystack_processRefund_try ::
  "config \<Rightarrow> env \<Rightarrow> (http_request \<Rightarrow> fetch_outcome) \<Rightarrow> refundData \<Rightarrow>
   paystack_world \<Rightarrow> (js_error + paystack_response unified) \<times> paystack_world" where
  "paystack_processRefund_try C E fetch rd w =
     (if \<not> truthy_str (transactionReference rd)
      then (Inl (new_Error ''transactionReference is required for Paystack refunds''), w)
      else
        let payload = \<lparr>rp_transaction = the (transactionReference rd),
                       rp_amount = (if truthy_num (rf_amount rd)
                                    then Some (js_times100 (rf_amount rd)) else None),
                       rp_reason = str_or (reason rd) ''requested_by_customer''\<rparr>;
            (r, w1) = makeRequest C fetch ''/refund'' ''POST'' (Some (RefundBody payload)) w
        in case r of
             Inl e \<Rightarrow> (Inl e, w1)
           | Inr refund \<Rightarrow>
               (case res_data refund of
                  None \<Rightarrow> (Inl no_data_error, w1)
                | Some d \<Rightarrow>
                    let (u, w2) = formatResponse paystack_name E
                          (RefundResponse
                             \<lparr>rr_refundId = d_id d,
                              rr_status = d_status d,
                              rr_amount = js_div100 (d_amount d),
                              rr_currency = d_currency d,
                              rr_reference = d_reference d\<rparr>) w1
                    in (Inr u, w2)))"

definition paystack_processRefund ::
  "config \<Rightarrow> env \<Rightarrow> (http_request \<Rightarrow> fetch_outcome) \<Rightarrow> refundData \<Rightarrow>
   paystack_world \<Rightarrow> paystack_response unified \<times> paystack_world" where
  "paystack_processRefund C E fetch rd w =
     catch_formatError paystack_name E (paystack_processRefund_try C E fetch rd w)"

text \<open>\<open>getPaymentStatus\<close>: a GET with no body.\<close>

definition no_status_error :: js_error where
  "no_status_error = new_Error ''Cannot read properties of undefined (reading 'status')''"

definition paystack_getPaymentStatus_try ::
  "config \<Rightarrow> env \<Rightarrow> (http_request \<Rightarrow> fetch_outcome) \<Rightarrow> string option \<Rightarrow>
   paystack_world \<Rightarrow> (js_error + paystack_response unified) \<times> paystack_world" where
  "paystack_getPaymentStatus_try C E fetch paymentReference w =
     (if \<not> truthy_str paymentReference
      then (Inl (new_Error ''Payment reference is required''), w)
      else
        let (r, w1) = makeRequest C fetch
                        (''/transaction/verify/'' @ the paymentReference) ''GET'' None w
        in case r of
             Inl e \<Rightarrow> (Inl e, w1)
           | Inr transaction \<Rightarrow>
               (case res_data transaction of
                  None \<Rightarrow> (Inl no_status_error, w1)
                | Some d \<Rightarrow>
                    let (u, w2) = formatResponse paystack_name E
                          (StatusResponse
                             \<lparr>sr_status = d_status d,
                              sr_amount = js_div100 (d_amount d),
                              sr_currency = d_currency d,
                              sr_reference = d_reference d,
                              sr_gateway = d_gateway d,
                              sr_channel = d_channel d,
                              sr_paidAt = d_paid_at d,
                              sr_createdAt = d_created_at d\<rparr>) w1
                    in (Inr u, w2)))"

definition paystack_getPaymentStatus ::
  "config \<Rightarrow> env \<Rightarrow> (http_request \<Rightarrow> fetch_outcome) \<Rightarrow> string option \<Rightarrow>
   paystack_world \<Rightarrow> paystack_response unified \<times> paystack_world" where
  "paystack_getPaymentStatus C E fetch paymentReference w =
     catch_formatError paystack_name E
       (paystack_getPaymentStatus_try C E fetch paymentReference w)"

text \<open>\<open>createPaymentIntent\<close>: as \<open>processPayment\<close>, with its own message for a missing
  email and no \<open>channels\<close>.\<close>

definition paystack_createPaymentIntent_try ::
  "config \<Rightarrow> process_env \<Rightarrow> env \<Rightarrow> (http_request \<Rightarrow> fetch_outcome) \<Rightarrow> paymentData \<Rightarrow>
   paystack_world \<Rightarrow> (js_error + paystack_response unified) \<times> paystack_world" where
  "paystack_createPaymentIntent_try C P E fetch p w =
     (let validation = validatePaymentData p in
      if \<not> isValid validation
      then (Inl (new_Error (''Validation failed: '' @ join '', '' (errors validation))), w)
      else if \<not> truthy_str (customerEmail p)
      then (Inl (new_Error ''customerEmail is required for Paystack payment intents''), w)
      else
        let (ref, w1) = generateUnifiedId paystack_name E w;
            (upid, w2) = generateUnifiedId paystack_name E w1;
            td = \<lparr>tx_amount = js_times100 (amount p),
                  tx_email = the (customerEmail p),
                  tx_currency = toUpperCase (the (currency p)),
                  tx_reference = ref,
                  tx_callback_url =
                    str_or (callbackUrl p)
                      (template_str (BASE_URL P) @ ''/api/payments/callback''),
                  tx_metadata =
                    [''unified_payment_id'' \<mapsto> JStr upid,
                     ''customer_email'' \<mapsto> JStr (the (customerEmail p))] ++ metadata p,
                  tx_channels = None\<rparr>;
            (r, w3) = makeRequest C fetch ''/transaction/initialize'' ''POST''
                        (Some (InitializeBody td)) w2
        in case r of
             Inl e \<Rightarrow> (Inl e, w3)
           | Inr transaction \<Rightarrow>
               (case res_data transaction of
                  None \<Rightarrow> (Inl no_data_error, w3)
                | Some d \<Rightarrow>
                    let (u, w4) = formatResponse paystack_name E
                          (PaymentResponse
                             \<lparr>pr_transactionId = d_id d,
                              pr_reference = d_reference d,
                              pr_authorizationUrl = d_authorization_url d,
                              pr_accessCode = d_access_code d,
                              pr_status = ''pending'',
                              pr_amount = amount p,
                              pr_currency = currency p\<rparr>) w3
                    in (Inr u, w4)))"

definition paystack_createPaymentIntent ::
  "config \<Rightarrow> process_env \<Rightarrow> env \<Rightarrow> (http_request \<Rightarrow> fetch_outcome) \<Rightarrow> paymentData \<Rightarrow>
   paystack_world \<Rightarrow> paystack_response unified \<times> paystack_world" where
  "paystack_createPaymentIntent C P E fetch p w =
     catch_formatError paystack_name E (paystack_createPaymentIntent_try C P E fetch p w)"

subsection \<open>Webhook verification\<close>

text \<open>
  The webhook input is \<open>{body, signature}\<close>; the result is \<open>{isValid: true, event}\<close> or
  \<open>{isValid: false, error}\<close>. The signature library is a parameter: for Paystack
  \<open>hmac\<close> stands for \<open>createHmac("sha512", key).update(JSON.stringify(body), "utf8")
  .digest("hex")\<close>, which returns the digest or throws; each use is counted in the world.
\<close>

record 'b webhookData =
  wh_body :: 'b
  signature :: "string option"

datatype 'e webhookResult =
  WebhookResult (wr_isValid: bool) (wr_event: "'e option") (wr_error: "string option")

definition paystack_verifyWebhook_try ::
  "config \<Rightarrow> (string \<Rightarrow> 'b \<Rightarrow> js_error + string) \<Rightarrow> 'b webhookData \<Rightarrow> 'c world \<Rightarrow>
   (js_error + 'b webhookResult) \<times> 'c world" where
  "paystack_verifyWebhook_try C hmac wd w =
     (if \<not> truthy_str (signature wd)
      then (Inl (new_Error ''No signature provided''), w)
      else
        let w1 = w\<lparr>crypto_calls := Suc (crypto_calls w)\<rparr> in
        case hmac (secretKey C) (wh_body wd) of
          Inl e \<Rightarrow> (Inl e, w1)
        | Inr hash \<Rightarrow>
            if hash \<noteq> the (signature wd)
            then (Inl (new_Error ''Invalid webhook signature''), w1)
            else (Inr (WebhookResult True (Some (wh_body wd)) None), w1))"

text \<open>\<open>catch (error) { return { isValid: false, error: error.message } }\<close>.\<close>

definition catch_invalid ::
  "(js_error + 'e webhookResult) \<times> 'c world \<Rightarrow> 'e webhookResult \<times> 'c world" where
  "catch_invalid r =
     (case r of
        (Inl e, w) \<Rightarrow> (WebhookResult False None (Some (e_message e)), w)
      | (Inr v, w) \<Rightarrow> (v, w))"

definition paystack_verifyWebhook ::
  "config \<Rightarrow> (string \<Rightarrow> 'b \<Rightarrow> js_error + string) \<Rightarrow> 'b webhookData \<Rightarrow> 'c world \<Rightarrow>
   'b webhookResult \<times> 'c world" where
  "paystack_verifyWebhook C hmac wd w = catch_invalid (paystack_verifyWebhook_try C hmac wd w)"

section \<open>StripeAdapter\<close>

text \<open>The SDK calls of \<open>processPayment\<close> and \<open>createPaymentIntent\<close>, logged as the provider
  calls of this adapter; \<open>cp_confirm\<close> says whether \<open>confirm: true\<close> is among the
  parameters, \<open>cp_payment_method\<close> whether \<open>payment_method\<close> is.\<close>

record createParams =
  cp_amount :: "jsnum option"
  cp_currency :: string
  cp_payment_method :: "string option"
  cp_confirm :: bool
  cp_description :: string
  cp_metadata :: "string \<rightharpoonup> jsval"

datatype stripe_call = PaymentIntentsCreate createParams | PaymentIntentsConfirm string

record paymentIntent =
  pi_id :: jsval
  pi_status :: jsval
  pi_amount :: jsval
  pi_currency :: jsval
  pi_client_secret :: jsval
  pi_next_action :: jsval

record stripe_payment =
  sp_paymentIntentId :: jsval
  sp_status :: jsval
  sp_amount :: jsval
  sp_currency :: jsval
  sp_clientSecret :: jsval
  sp_requiresAction :: bool
  sp_nextAction :: jsval

record stripe_intent =
  si_paymentIntentId :: jsval
  si_clientSecret :: jsval
  si_status :: jsval
  si_amount :: jsval
  si_currency :: jsval

datatype stripe_response = StripePayment stripe_payment | StripeIntent stripe_intent

type_synonym stripe_world = "stripe_call world"

definition stripe_name :: string where
  "stripe_name = ''StripeAdapter''"

text \<open>One call of the SDK: logged, then answered by the provider with a payment intent
  or an error.\<close>

definition sdk_call ::
  "(stripe_call \<Rightarrow> js_error + paymentIntent) \<Rightarrow> stripe_call \<Rightarrow> stripe_world \<Rightarrow>
   (js_error + paymentIntent) \<times> stripe_world" where
  "sdk_call sdk c w = (sdk c, w\<lparr>net_calls := net_calls w @ [c]\<rparr>)"

text \<open>The metadata literal \<open>{unified_payment_id, customer_email, ...metadata}\<close>.\<close>

definition stripe_metadata :: "string \<Rightarrow> paymentData \<Rightarrow> (string \<rightharpoonup> jsval)" where
  "stripe_metadata upid p =
     [''unified_payment_id'' \<mapsto> JStr upid,
      ''customer_email'' \<mapsto> (case customerEmail p of None \<Rightarrow> JUndefined | Some e \<Rightarrow> JStr e)]
     ++ metadata p"

definition stripe_processPayment_try ::
  "env \<Rightarrow> (stripe_call \<Rightarrow> js_error + paymentIntent) \<Rightarrow> paymentData \<Rightarrow>
   stripe_world \<Rightarrow> (js_error + stripe_response unified) \<times> stripe_world" where
  "stripe_processPayment_try E sdk p w =
     (let validation = validatePaymentData p in
      if \<not> isValid validation
      then (Inl (new_Error (''Validation failed: '' @ join '', '' (errors validation))), w)
      else
        let (r, w2) =
              (if truthy_str (paymentMethodId p)
               then
                 let (upid, w1) = generateUnifiedId stripe_name E w
                 in sdk_call sdk
                      (PaymentIntentsCreate
                         \<lparr>cp_amount = amount p,
                          cp_currency = toLowerCase (the (currency p)),
                          cp_payment_method = paymentMethodId p,
                          cp_confirm = True,
                          cp_description =
                            str_or (description p) ''Payment via Unified Payments API'',
                          cp_metadata = stripe_metadata upid p\<rparr>) w1
               else if truthy_str (paymentIntentId p)
               then sdk_call sdk (PaymentIntentsConfirm (the (paymentIntentId p))) w
               else
                 let (upid, w1) = generateUnifiedId stripe_name E w
                 in sdk_call sdk
                      (PaymentIntentsCreate
                         \<lparr>cp_amount = amount p,
                          cp_currency = toLowerCase (the (currency p)),
                          cp_payment_method = None,
                          cp_confirm = False,
                          cp_description =
                            str_or (description p) ''Payment via Unified Payments API'',
                          cp_metadata = stripe_metadata upid p\<rparr>) w1)
        in case r of
             Inl e \<Rightarrow> (Inl e, w2)
           | Inr intent \<Rightarrow>
               let (u, w3) = formatResponse stripe_name E
                     (StripePayment
                        \<lparr>sp_paymentIntentId = pi_id intent,
                         sp_status = pi_status intent,
                         sp_amount = pi_amount intent,
                         sp_currency = pi_currency intent,
                         sp_clientSecret = pi_client_secret intent,
                         sp_requiresAction = (pi_status intent = JStr ''requires_action''),
                         sp_nextAction = pi_next_action intent\<rparr>) w2
               in (Inr u, w3))"

definition stripe_processPayment ::
  "env \<Rightarrow> (stripe_call \<Rightarrow> js_error + paymentIntent) \<Rightarrow> paymentData \<Rightarrow>
   stripe_world \<Rightarrow> stripe_response unified \<times> stripe_world" where
  "stripe_processPayment E sdk p w =
     catch_formatError stripe_name E (stripe_processPayment_try E sdk p w)"

definition stripe_createPaymentIntent_try ::
  "env \<Rightarrow> (stripe_call \<Rightarrow> js_error + paymentIntent) \<Rightarrow> paymentData \<Rightarrow>
   stripe_world \<Rightarrow> (js_error + stripe_response unified) \<times> stripe_world" where
  "stripe_createPaymentIntent_try E sdk p w =
     (let validation = validatePaymentData p in
      if \<not> isValid validation
      then (Inl (new_Error (''Validation failed: '' @ join '', '' (errors validation))), w)
      else
        let (upid, w1) = generateUnifiedId stripe_name E w;
            (r, w2) = sdk_call sdk
              (PaymentIntentsCreate
                 \<lparr>cp_amount = amount p,
                  cp_currency = toLowerCase (the (currency p)),
                  cp_payment_method = None,
                  cp_confirm = False,
                  cp_description =
                    str_or (description p) ''Payment intent via Unified Payments API'',
                  cp_metadata = stripe_metadata upid p\<rparr>) w1
        in case r of
             Inl e \<Rightarrow> (Inl e, w2)
           | Inr intent \<Rightarrow>
               let (u, w3) = formatResponse stripe_name E
                     (StripeIntent
                        \<lparr>si_paymentIntentId = pi_id intent,
                         si_clientSecret = pi_client_secret intent,
                         si_status = pi_status intent,
                         si_amount = pi_amount intent,
                         si_currency = pi_currency intent\<rparr>) w2
               in (Inr u, w3))"

definition stripe_createPaymentIntent ::
  "env \<Rightarrow> (stripe_call \<Rightarrow> js_error + paymentIntent) \<Rightarrow> paymentData \<Rightarrow>
   stripe_world \<Rightarrow> stripe_response unified \<times> stripe_world" where
  "stripe_createPaymentIntent E sdk p w =
     catch_formatError stripe_name E (stripe_createPaymentIntent_try E sdk p w)"

text \<open>\<open>verifyWebhook\<close>: \<open>constructEvent\<close> stands for the SDK's
  \<open>webhooks.constructEvent(body, signature, webhookSecret)\<close>, which returns the event or
  throws.\<close>

definition stripe_verifyWebhook_try ::
  "config \<Rightarrow> ('b \<Rightarrow> string \<Rightarrow> string option \<Rightarrow> js_error + 'e) \<Rightarrow> 'b webhookData \<Rightarrow> 'c world \<Rightarrow>
   (js_error + 'e webhookResult) \<times> 'c world" where
  "stripe_verifyWebhook_try C constructEvent wd w =
     (if \<not> truthy_str (signature wd)
      then (Inl (new_Error ''No signature provided''), w)
      else
        let w1 = w\<lparr>crypto_calls := Suc (crypto_calls w)\<rparr> in
        case constructEvent (wh_body wd) (the (signature wd)) (webhookSecret C) of
          Inl e \<Rightarrow> (Inl e, w1)
        | Inr event \<Rightarrow> (Inr (WebhookResult True (Some event) None), w1))"

definition stripe_verifyWebhook ::
  "config \<Rightarrow> ('b \<Rightarrow> string \<Rightarrow> string option \<Rightarrow> js_error + 'e) \<Rightarrow> 'b webhookData \<Rightarrow> 'c world \<Rightarrow>
   'e webhookResult \<times> 'c world" where
  "stripe_verifyWebhook C constructEvent wd w =
     catch_invalid (stripe_verifyWebhook_try C constructEvent wd w)"

section \<open>GatewayFactory\<close>

text \<open>The static capability lists of the two adapters.\<close>

definition stripe_getSupportedCurrencies :: "string list" where
  "stripe_getSupportedCurrencies =
    [''usd'', ''eur'', ''gbp'', ''cad'', ''aud'', ''jpy'', ''chf'', ''sek'', ''nok'',
     ''dkk'', ''pln'', ''czk'', ''huf'', ''ron'', ''bgn'', ''hrk'', ''rub'', ''try'',
     ''brl'', ''mxn'', ''ars'', ''clp'', ''cop'', ''pen'', ''uyu'', ''pyg'', ''bob'',
     ''ecv'', ''gtq'', ''hnl'', ''nio'', ''crc'', ''pab'', ''vef'', ''dop'', ''jmd'',
     ''ttd'', ''bbd'', ''bzd'', ''xcd'', ''htg'', ''awg'', ''ang'', ''srd'', ''gyd'',
     ''fjd'', ''pgk'', ''wst'', ''vuv'', ''top'', ''sbd'', ''kwd'', ''bhd'', ''omr'',
     ''qar'', ''aed'', ''sar'', ''jod'', ''lbp'', ''egp'', ''mad'', ''tnd'', ''lyd'',
     ''dzd'', ''mro'', ''mru'', ''ngn'', ''ghs'', ''kes'', ''ugx'', ''tzs'', ''bif'',
     ''rwf'', ''djf'', ''kmf'', ''mga'', ''mur'', ''scr'', ''szl'', ''zmw'', ''mwk'',
     ''bwp'', ''naf'', ''szl'', ''ls'', ''stn'', ''aoa'', ''cve'', ''gmd'', ''gnb'',
     ''gw'', ''mrt'', ''ml'', ''bf'', ''bj'', ''tg'', ''ci'', ''sn'', ''gm'', ''gn'',
     ''sl'', ''lr'', ''cm'', ''cf'', ''td'', ''ne'', ''sd'', ''er'', ''et'', ''so'',
     ''dj'', ''yt'', ''km'', ''mg'', ''re'', ''mu'', ''sc'', ''com'', ''km'', ''yt'',
     ''dj'', ''so'', ''et'', ''er'', ''sd'', ''ne'', ''td'', ''cf'', ''cm'', ''lr'',
     ''sl'', ''gn'', ''gm'', ''sn'', ''ci'', ''tg'', ''bj'', ''bf'', ''ml'', ''mrt'',
     ''gw'', ''gnb'', ''gmd'', ''cve'', ''aoa'']"

definition stripe_getSupportedPaymentMethods :: "string list" where
  "stripe_getSupportedPaymentMethods =
    [''card'', ''bank_transfer'', ''sepa_debit'', ''sofort'', ''ideal'', ''bancontact'',
     ''eps'', ''giropay'', ''p24'', ''alipay'', ''wechat_pay'', ''klarna'', ''affirm'',
     ''afterpay_clearpay'']"

definition paystack_getSupportedCurrencies :: "string list" where
  "paystack_getSupportedCurrencies =
    [''NGN'', ''GHS'', ''ZAR'', ''USD'', ''EUR'', ''GBP'', ''KES'', ''UGX'', ''TZS'',
     ''ZMW'', ''MAD'', ''EGP'', ''XOF'', ''XAF'', ''CDF'', ''RWF'', ''BIF'', ''DJF'',
     ''KMF'', ''MGA'', ''MUR'', ''SCR'', ''SZL'', ''MWK'', ''BWP'', ''NAD'', ''LSL'',
     ''STN'', ''AOA'', ''CVE'', ''GMD'', ''GNF'', ''GW'', ''MRT'', ''ML'', ''BF'',
     ''BJ'', ''TG'', ''CI'', ''SN'', ''GM'', ''GN'', ''SL'', ''LR'', ''CM'', ''CF'',
     ''TD'', ''NE'', ''SD'', ''ER'', ''ET'', ''SO'', ''DJ'', ''YT'', ''KM'', ''MG'',
     ''RE'', ''MU'', ''SC'', ''COM'']"

definition paystack_getSupportedPaymentMethods :: "string list" where
  "paystack_getSupportedPaymentMethods =
    [''card'', ''bank'', ''ussd'', ''qr'', ''mobile_money'', ''bank_transfer'',
     ''payattitude'', ''paga'', ''1voucher'', ''gt_bank'', ''internet_banking'',
     ''cashenvoy'', ''providus_bank'', ''pay_with_bank'', ''pay_with_bank_transfer'',
     ''standard_bank'', ''zenith_bank'', ''access_bank'', ''gt_bank'', ''first_bank'',
     ''fidelity_bank'', ''ecobank'', ''stanbic_bank'', ''union_bank'', ''wema_bank'',
     ''heritage_bank'', ''keystone_bank'', ''polaris_bank'', ''unity_bank'',
     ''jaiz_bank'', ''stanbic_ibtc_bank'', ''diamond_bank'', ''mainstreet_bank'',
     ''fcmb_bank'', ''uba_bank'', ''fidelity_bank'', ''ecobank'', ''stanbic_bank'',
     ''union_bank'', ''wema_bank'', ''heritage_bank'', ''keystone_bank'',
     ''polaris_bank'', ''unity_bank'', ''jaiz_bank'', ''stanbic_ibtc_bank'',
     ''diamond_bank'', ''mainstreet_bank'', ''fcmb_bank'', ''uba_bank'']"

text \<open>The registry is a \<open>Map\<close> from names to adapter instances, kept in insertion
  order; \<open>map_set\<close> is \<open>Map.prototype.set\<close>, \<open>map_has\<close> is \<open>has\<close>, \<open>map_of\<close> is \<open>get\<close>.\<close>

datatype adapter = StripeAdapter config | PaystackAdapter config

fun map_set :: "'k \<Rightarrow> 'v \<Rightarrow> ('k \<times> 'v) list \<Rightarrow> ('k \<times> 'v) list" where
  "map_set k v [] = [(k, v)]"
| "map_set k v ((k', v') # m) = (if k' = k then (k, v) # m else (k', v') # map_set k v m)"

definition map_has :: "('k \<times> 'v) list \<Rightarrow> 'k \<Rightarrow> bool" where
  "map_has m k = (map_of m k \<noteq> None)"

record factory =
  adapters :: "(string \<times> adapter) list"

definition initializeAdapters :: "process_env \<Rightarrow> factory \<Rightarrow> factory" where
  "initializeAdapters P F =
     (let F1 = (if truthy_str (STRIPE_SECRET_KEY P)
                then F\<lparr>adapters := map_set ''stripe''
                       (StripeAdapter
                          \<lparr>secretKey = the (STRIPE_SECRET_KEY P), publicKey = None,
                           publishableKey = STRIPE_PUBLISHABLE_KEY P,
                           webhookSecret = STRIPE_WEBHOOK_SECRET P\<rparr>) (adapters F)\<rparr>
                else F)
      in if truthy_str (PAYSTACK_SECRET_KEY P)
         then F1\<lparr>adapters := map_set ''paystack''
                (PaystackAdapter
                   \<lparr>secretKey = the (PAYSTACK_SECRET_KEY P),
                    publicKey = PAYSTACK_PUBLIC_KEY P,
                    publishableKey = None, webhookSecret = None\<rparr>) (adapters F1)\<rparr>
         else F1)"

definition new_GatewayFactory :: "process_env \<Rightarrow> factory" where
  "new_GatewayFactory P = initializeAdapters P \<lparr>adapters = []\<rparr>"

text \<open>
  \<open>getGateway\<close> and \<open>isGatewayAvailable\<close> call \<open>gatewayName.toLowerCase()\<close> on whatever
  value they are given. On a string that is JavaScript's \<open>toLowerCase\<close>, which folds
  letters by the Unicode tables: it is the parameter \<open>lower\<close> of the Factory's methods.
  On a value that is not a string the call throws a TypeError. A thrown error is the
  left summand; \<open>getGateway\<close> throws its own on a name that is not registered.
\<close>

fun toLowerCase_TypeError :: "jsval \<Rightarrow> js_error" where
  "toLowerCase_TypeError JUndefined =
     new_Error ''Cannot read properties of undefined (reading 'toLowerCase')''"
| "toLowerCase_TypeError JNull =
     new_Error ''Cannot read properties of null (reading 'toLowerCase')''"
| "toLowerCase_TypeError v = new_Error ''gatewayName.toLowerCase is not a function''"

definition getGateway ::
  "(string \<Rightarrow> string) \<Rightarrow> factory \<Rightarrow> jsval \<Rightarrow> js_error + adapter" where
  "getGateway lower F gatewayName =
     (case gatewayName of
        JStr s \<Rightarrow>
          (let normalizedName = lower s in
           if \<not> map_has (adapters F) normalizedName
           then Inl (new_Error (''Unsupported payment gateway: '' @ s))
           else Inr (the (map_of (adapters F) normalizedName)))
      | _ \<Rightarrow> Inl (toLowerCase_TypeError gatewayName))"

definition getAvailableGateways :: "factory \<Rightarrow> string list" where
  "getAvailableGateways F = map fst (adapters F)"

definition isGatewayAvailable ::
  "(string \<Rightarrow> string) \<Rightarrow> factory \<Rightarrow> jsval \<Rightarrow> js_error + bool" where
  "isGatewayAvailable lower F gatewayName =
     (case gatewayName of
        JStr s \<Rightarrow> (let normalizedName = lower s in Inr (map_has (adapters F) normalizedName))
      | _ \<Rightarrow> Inl (toLowerCase_TypeError gatewayName))"

fun getSupportedCurrencies :: "adapter \<Rightarrow> string list" where
  "getSupportedCurrencies (StripeAdapter C) = stripe_getSupportedCurrencies"
| "getSupportedCurrencies (PaystackAdapter C) = paystack_getSupportedCurrencies"

fun getSupportedPaymentMethods :: "adapter \<Rightarrow> string list" where
  "getSupportedPaymentMethods (StripeAdapter C) = stripe_getSupportedPaymentMethods"
| "getSupportedPaymentMethods (PaystackAdapter C) = paystack_getSupportedPaymentMethods"

record features =
  refunds :: bool
  webhooks :: bool
  paymentIntents :: bool
  statusChecking :: bool

record capabilities =
  cap_name :: jsval
  supportedCurrencies :: "string list"
  supportedPaymentMethods :: "string list"
  cap_features :: features

definition getGatewayCapabilities ::
  "(string \<Rightarrow> string) \<Rightarrow> factory \<Rightarrow> jsval \<Rightarrow> js_error + capabilities" where
  "getGatewayCapabilities lower F gatewayName =
     (case getGateway lower F gatewayName of
        Inl e \<Rightarrow> Inl e
      | Inr g \<Rightarrow>
          Inr \<lparr>cap_name = gatewayName,
               supportedCurrencies = getSupportedCurrencies g,
               supportedPaymentMethods = getSupportedPaymentMethods g,
               cap_features = \<lparr>refunds = True, webhooks = True, paymentIntents = True,
                                statusChecking = True\<rparr>\<rparr>)"

text \<open>The loop of \<open>getAllGatewayCapabilities\<close> over the registry's entries; an error
  thrown by \<open>getGatewayCapabilities\<close> would leave the method.\<close>

fun capabilities_loop ::
  "(string \<Rightarrow> string) \<Rightarrow> factory \<Rightarrow> (string \<times> adapter) list \<Rightarrow>
   (string \<times> capabilities) list \<Rightarrow> js_error + (string \<times> capabilities) list" where
  "capabilities_loop lower F [] acc = Inr acc"
| "capabilities_loop lower F ((n, a) # rest) acc =
     (case getGatewayCapabilities lower F (JStr n) of
        Inl e \<Rightarrow> Inl e
      | Inr c \<Rightarrow> capabilities_loop lower F rest (map_set n c acc))"

definition getAllGatewayCapabilities ::
  "(string \<Rightarrow> string) \<Rightarrow> factory \<Rightarrow> js_error + (string \<times> capabilities) list" where
  "getAllGatewayCapabilities lower F = capabilities_loop lower F (adapters F) []"

record configurationStatus =
  cs_isValid :: bool
  cs_errors :: "string list"
  warnings :: "string list"
  cs_availableGateways :: "string list"

definition validateConfiguration :: "process_env \<Rightarrow> factory \<Rightarrow> configurationStatus" where
  "validateConfiguration P F =
     (let errs = [];
          warnings1 = (if \<not> truthy_str (STRIPE_SECRET_KEY P)
                       then [''Stripe is not configured (STRIPE_SECRET_KEY missing)'']
                       else []);
          warnings2 = (if \<not> truthy_str (PAYSTACK_SECRET_KEY P)
                       then warnings1 @
                            [''Paystack is not configured (PAYSTACK_SECRET_KEY missing)'']
                       else warnings1);
          warnings3 = (if length warnings2 = 0
                       then warnings2 @ [''All supported gateways are configured'']
                       else warnings2)
      in \<lparr>cs_isValid = (length errs = 0), cs_errors = errs, warnings = warnings3,
          cs_availableGateways = getAvailableGateways F\<rparr>)"

record gatewayStats =
  totalGateways :: nat
  availableGateways :: "string list"
  configurationStatus :: configurationStatus

definition getGatewayStats :: "process_env \<Rightarrow> factory \<Rightarrow> gatewayStats" where
  "getGatewayStats P F =
     \<lparr>totalGateways = length (adapters F),
      availableGateways = getAvailableGateways F,
      configurationStatus = validateConfiguration P F\<rparr>"

section \<open>Reading the log and the reply\<close>

text \<open>The payload of a logged request, when it is of the given kind, and the \<open>amount\<close>
  field of a \<open>gatewayResponse\<close>.\<close>

definition sent_transaction :: "http_request \<Rightarrow> transactionData option" where
  "sent_transaction req =
     (case body req of Some (InitializeBody td) \<Rightarrow> Some td | _ \<Rightarrow> None)"



section \<open>Concrete inputs\<close>

text \<open>A clock that starts at 1700000000000 ms and advances by one at each read, a random
  source that renders as \<open>0.4fzyo82mvyr\<close>, a fresh world, a well-formed request, and a
  provider that accepts every call.\<close>

definition example_env :: env where
  "example_env =
     \<lparr>date_now = (\<lambda>k. 1700000000000 + k), random_b36 = (\<lambda>k. ''0.4fzyo82mvyr'')\<rparr>"

definition example_world :: "'c world" where
  "example_world = \<lparr>clock_reads = 0, random_reads = 0, net_calls = [], crypto_calls = 0\<rparr>"

definition example_payment :: paymentData where
  "example_payment =
     \<lparr>amount = Some (Num 50), currency = Some ''NGN'',
      customerEmail = Some ''ama@example.com'', description = None,
      paymentMethodId = None, paymentIntentId = None, callbackUrl = None, channel = None,
      metadata = Map.empty\<rparr>"

definition example_config :: config where
  "example_config =
     \<lparr>secretKey = ''sk_test_1'', publicKey = None, publishableKey = None,
      webhookSecret = Some ''whsec_1''\<rparr>"

definition example_process_env :: process_env where
  "example_process_env =
     \<lparr>STRIPE_SECRET_KEY = Some ''sk_test_1'', STRIPE_PUBLISHABLE_KEY = None,
      STRIPE_WEBHOOK_SECRET = Some ''whsec_1'', PAYSTACK_SECRET_KEY = None,
      PAYSTACK_PUBLIC_KEY = None, BASE_URL = Some ''https://pay.example.com''\<rparr>"

definition example_data :: paystack_data where
  "example_data =
     \<lparr>d_id = JNum (Num 7), d_reference = JStr ''ref_7'',
      d_authorization_url = JStr ''https://checkout.paystack.com/7'',
      d_access_code = JStr ''ac_7'', d_status = JStr ''success'',
      d_amount = Some (Num 5000), d_currency = JStr ''NGN'', d_gateway = JUndefined,
      d_channel = JStr ''card'', d_paid_at = JNull, d_created_at = JNull\<rparr>"

definition example_fetch :: "http_request \<Rightarrow> fetch_outcome" where
  "example_fetch req =
     FetchResponse True 200 \<lparr>res_message = None, res_data = Some example_data\<rparr>"

definition example_intent :: paymentIntent where
  "example_intent =
     \<lparr>pi_id = JStr ''pi_1'', pi_status = JStr ''requires_payment_method'',
      pi_amount = JNum (Num 5000), pi_currency = JStr ''usd'',
      pi_client_secret = JStr ''pi_1_secret'', pi_next_action = JNull\<rparr>"

definition example_sdk :: "stripe_call \<Rightarrow> js_error + paymentIntent" where
  "example_sdk c = Inr example_intent"

text \<open>A signature library that accepts one signature and throws on any other, and a
  keyed hash.\<close>

definition example_constructEvent ::
  "string \<Rightarrow> string \<Rightarrow> string option \<Rightarrow> js_error + string" where
  "example_constructEvent b sig sec =
     (if sig = ''t=1,v1=good'' then Inr b
      else Inl (new_Error ''No signatures found matching the expected signature for payload''))"

definition example_hmac :: "string \<Rightarrow> string \<Rightarrow> js_error + string" where
  "example_hmac key b = Inr (''hmac('' @ key @ '','' @ b @ '')'')"


text \<open>A process environment with no credential at all.\<close>

definition empty_process_env :: process_env where
  "empty_process_env =
     \<lparr>STRIPE_SECRET_KEY = None, STRIPE_PUBLISHABLE_KEY = None,
      STRIPE_WEBHOOK_SECRET = None, PAYSTACK_SECRET_KEY = None,
      PAYSTACK_PUBLIC_KEY = None, BASE_URL = None\<rparr>"

text \<open>The error thrown when the shared validation fails.\<close>

definition validation_error :: "paymentData \<Rightarrow> js_error" where
  "validation_error p =
     new_Error (''Validation failed: '' @ join '', '' (errors (validatePaymentData p)))"

section \<open>The shared helpers, computed\<close>

lemma generateUnifiedId_eq:
  "generateUnifiedId g E w =
     (''unified_'' @ toLowerCase g @ ''_'' @ toString36 (date_now E (clock_reads w)) @ ''_'' @
        substr_2_5 (random_b36 E (random_reads w)),
      w\<lparr>clock_reads := Suc (clock_reads w), random_reads := Suc (random_reads w)\<rparr>)"
  by (simp add: generateUnifiedId_def read_clock_def read_random_def)

lemma formatError_eq:
  "formatError g E e w =
     (UnifiedError (toLowerCase g)
        \<lparr>message = e_message e,
         code = str_or (e_code e) ''UNKNOWN_ERROR'',
         details = (if truthy_str (e_details e) then e_details e else None)\<rparr>
        (date_now E (clock_reads w))
        (fst (generateUnifiedId g E (w\<lparr>clock_reads := Suc (clock_reads w)\<rparr>))),
      w\<lparr>clock_reads := Suc (Suc (clock_reads w)), random_reads := Suc (random_reads w)\<rparr>)"
  by (simp add: formatError_def read_clock_def generateUnifiedId_eq)

lemma formatResponse_eq:
  "formatResponse g E r w =
     (UnifiedResponse (toLowerCase g) r (date_now E (clock_reads w))
        (fst (generateUnifiedId g E (w\<lparr>clock_reads := Suc (clock_reads w)\<rparr>))),
      w\<lparr>clock_reads := Suc (Suc (clock_reads w)), random_reads := Suc (random_reads w)\<rparr>)"
  by (simp add: formatResponse_def read_clock_def generateUnifiedId_eq)

lemma formatError_quiet:
  "\<not> success (fst (formatError g E e w)) \<and> net_calls (snd (formatError g E e w)) = net_calls w"
  by (simp add: formatError_eq)

lemma validatePaymentData_isValid:
  "isValid (validatePaymentData p) \<longleftrightarrow>
     truthy_num (amount p) \<and> truthy_str (currency p) \<and> \<not> js_le_zero (amount p)"
  by (simp add: validatePaymentData_def field_missing_def Let_def)

lemma rejected_invalid:
  "js_le_zero (amount p) \<or> currency p = None \<Longrightarrow> \<not> isValid (validatePaymentData p)"
  by (auto simp: validatePaymentData_isValid)

section \<open>Base-36 numerals\<close>

lemma digit36_value_digit36_all:
  "\<forall>d \<in> set [0..<36]. digit36_value (digit36 d) = d"
  by code_simp

lemma digit36_value_digit36: "d < 36 \<Longrightarrow> digit36_value (digit36 d) = d"
  using digit36_value_digit36_all by simp

lemma digit36_not_underscore_all: "\<forall>d \<in> set [0..<36]. digit36 d \<noteq> CHR ''_''"
  by code_simp

lemma digit36_not_underscore: "d < 36 \<Longrightarrow> digit36 d \<noteq> CHR ''_''"
  using digit36_not_underscore_all by simp

lemma base36_value_snoc:
  "base36_value (s @ [c]) = base36_value s * 36 + digit36_value c"
  by (simp add: base36_value_def)

lemma base36_value_toString36: "base36_value (toString36 n) = n"
proof (induction n rule: toString36.induct)
  case (1 n)
  show ?case
  proof (cases "n < 36")
    case True
    then show ?thesis
      by (simp add: toString36.simps [of n] base36_value_def digit36_value_digit36)
  next
    case False
    then have "base36_value (toString36 (n div 36)) = n div 36"
      using 1 by simp
    with False show ?thesis
      by (simp add: toString36.simps [of n] base36_value_snoc digit36_value_digit36)
  qed
qed

lemma toString36_no_underscore: "CHR ''_'' \<notin> set (toString36 n)"
proof (induction n rule: toString36.induct)
  case (1 n)
  show ?case
  proof (cases "n < 36")
    case True
    then show ?thesis
      using digit36_not_underscore [of n] by (simp add: toString36.simps [of n])
  next
    case False
    then have "CHR ''_'' \<notin> set (toString36 (n div 36))"
      using 1 by simp
    with False show ?thesis
      using digit36_not_underscore [of "n mod 36"] by (simp add: toString36.simps [of n])
  qed
qed

lemma unified_ids_differ:
  assumes "m \<noteq> n"
  shows "pre @ toString36 m @ ''_'' @ r \<noteq> pre @ toString36 n @ ''_'' @ r'"
proof
  assume "pre @ toString36 m @ ''_'' @ r = pre @ toString36 n @ ''_'' @ r'"
  then have eq: "toString36 m @ CHR ''_'' # r = toString36 n @ CHR ''_'' # r'"
    by simp
  have "takeWhile (\<lambda>x. x \<noteq> CHR ''_'') (toString36 k @ CHR ''_'' # t) = toString36 k" for k t
    using toString36_no_underscore [of k] by (auto simp: takeWhile_tail)
  with eq have "toString36 m = toString36 n"
    by metis
  then have "base36_value (toString36 m) = base36_value (toString36 n)"
    by simp
  with assms show False
    by (simp add: base36_value_toString36)
qed

section \<open>Requests that fail the shared validation\<close>

lemma paystack_processPayment_invalid:
  "\<not> isValid (validatePaymentData p) \<Longrightarrow>
   paystack_processPayment C P E fetch p w = formatError paystack_name E (validation_error p) w"
  by (simp add: paystack_processPayment_def paystack_processPayment_try_def
      catch_formatError_def validation_error_def Let_def)

lemma paystack_createPaymentIntent_invalid:
  "\<not> isValid (validatePaymentData p) \<Longrightarrow>
   paystack_createPaymentIntent C P E fetch p w =
     formatError paystack_name E (validation_error p) w"
  by (simp add: paystack_createPaymentIntent_def paystack_createPaymentIntent_try_def
      catch_formatError_def validation_error_def Let_def)

lemma stripe_processPayment_invalid:
  "\<not> isValid (validatePaymentData p) \<Longrightarrow>
   stripe_processPayment E sdk p w = formatError stripe_name E (validation_error p) w"
  by (simp add: stripe_processPayment_def stripe_processPayment_try_def
      catch_formatError_def validation_error_def Let_def)

lemma stripe_createPaymentIntent_invalid:
  "\<not> isValid (validatePaymentData p) \<Longrightarrow>
   stripe_createPaymentIntent E sdk p w = formatError stripe_name E (validation_error p) w"
  by (simp add: stripe_createPaymentIntent_def stripe_createPaymentIntent_try_def
      catch_formatError_def validation_error_def Let_def)

text \<open>
  C1. A payment request whose amount is \<open><= 0\<close> or whose currency is missing gets a
  UnifiedError (\<open>success: false\<close>) from \<open>processPayment\<close> and from \<open>createPaymentIntent\<close>
  of both adapters, and the log of provider calls is the one the method started with:
  the shared validation comes before any transport call.
\<close>

theorem invalid_request_no_network_call:
  assumes "js_le_zero (amount p) \<or> currency p = None"
  shows "\<not> success (fst (paystack_processPayment C P E fetch p w)) \<and>
         net_calls (snd (paystack_processPayment C P E fetch p w)) = net_calls w \<and>
         \<not> success (fst (paystack_createPaymentIntent C P E fetch p w)) \<and>
         net_calls (snd (paystack_createPaymentIntent C P E fetch p w)) = net_calls w \<and>
         \<not> success (fst (stripe_processPayment E sdk p v)) \<and>
         net_calls (snd (stripe_processPayment E sdk p v)) = net_calls v \<and>
         \<not> success (fst (stripe_createPaymentIntent E sdk p v)) \<and>
         net_calls (snd (stripe_createPaymentIntent E sdk p v)) = net_calls v"
proof -
  have inv: "\<not> isValid (validatePaymentData p)"
    using assms by (rule rejected_invalid)
  show ?thesis
    by (simp only: paystack_processPayment_invalid [OF inv]
        paystack_createPaymentIntent_invalid [OF inv] stripe_processPayment_invalid [OF inv]
        stripe_createPaymentIntent_invalid [OF inv] formatError_quiet simp_thms)
qed

theorem invalid_request_no_network_call_witness:
  "js_le_zero (amount (example_payment\<lparr>amount := Some (Num (- 5))\<rparr>)) \<and>
   \<not> success (fst (paystack_processPayment example_config example_process_env example_env
       example_fetch (example_payment\<lparr>amount := Some (Num (- 5))\<rparr>) example_world)) \<and>
   net_calls (snd (paystack_processPayment example_config example_process_env example_env
       example_fetch (example_payment\<lparr>amount := Some (Num (- 5))\<rparr>) example_world)) = [] \<and>
   \<not> success (fst (stripe_createPaymentIntent example_env example_sdk
       (example_payment\<lparr>amount := Some (Num (- 5))\<rparr>) example_world)) \<and>
   net_calls (snd (stripe_createPaymentIntent example_env example_sdk
       (example_payment\<lparr>amount := Some (Num (- 5))\<rparr>) example_world)) = []"
proof -
  have h: "js_le_zero (amount (example_payment\<lparr>amount := Some (Num (- 5))\<rparr>)) \<or>
      currency (example_payment\<lparr>amount := Some (Num (- 5))\<rparr>) = None"
    by simp
  have e: "net_calls (example_world :: paystack_world) = []"
      "net_calls (example_world :: stripe_world) = []"
    by (simp_all add: example_world_def)
  show ?thesis
    using invalid_request_no_network_call [OF h, of example_config example_process_env
        example_env example_fetch example_world example_sdk example_world] e
    by simp
qed









section \<open>The provider calls of the Stripe adapter\<close>

lemma stripe_processPayment_calls:
  assumes "isValid (validatePaymentData p)"
  shows "net_calls (snd (stripe_processPayment E sdk p w)) =
     net_calls w @
     [if truthy_str (paymentMethodId p)
      then PaymentIntentsCreate
             \<lparr>cp_amount = amount p, cp_currency = toLowerCase (the (currency p)),
              cp_payment_method = paymentMethodId p, cp_confirm = True,
              cp_description = str_or (description p) ''Payment via Unified Payments API'',
              cp_metadata = stripe_metadata (fst (generateUnifiedId stripe_name E w)) p\<rparr>
      else if truthy_str (paymentIntentId p)
      then PaymentIntentsConfirm (the (paymentIntentId p))
      else PaymentIntentsCreate
             \<lparr>cp_amount = amount p, cp_currency = toLowerCase (the (currency p)),
              cp_payment_method = None, cp_confirm = False,
              cp_description = str_or (description p) ''Payment via Unified Payments API'',
              cp_metadata = stripe_metadata (fst (generateUnifiedId stripe_name E w)) p\<rparr>]"
  using assms
  by (simp add: stripe_processPayment_def stripe_processPayment_try_def catch_formatError_def
      sdk_call_def generateUnifiedId_eq formatResponse_eq formatError_eq Let_def
      split: sum.split)

text \<open>
  C5. Once the request has passed the validation, \<open>processPayment\<close> of the Stripe adapter
  makes exactly one provider call, chosen in this order: with a \<open>paymentMethodId\<close> it
  creates an intent with that payment method and \<open>confirm: true\<close>, whether or not a
  \<open>paymentIntentId\<close> is there as well; otherwise, with a \<open>paymentIntentId\<close> it confirms
  that intent; otherwise it creates an intent without confirming it. A field is there
  when it is truthy.
\<close>

theorem stripe_processPayment_branches:
  assumes "isValid (validatePaymentData p)"
  shows "(truthy_str (paymentMethodId p) \<longrightarrow>
           (\<exists>params. net_calls (snd (stripe_processPayment E sdk p w)) =
               net_calls w @ [PaymentIntentsCreate params] \<and>
             cp_confirm params \<and> cp_payment_method params = paymentMethodId p)) \<and>
         (\<not> truthy_str (paymentMethodId p) \<and> truthy_str (paymentIntentId p) \<longrightarrow>
           net_calls (snd (stripe_processPayment E sdk p w)) =
             net_calls w @ [PaymentIntentsConfirm (the (paymentIntentId p))]) \<and>
         (\<not> truthy_str (paymentMethodId p) \<and> \<not> truthy_str (paymentIntentId p) \<longrightarrow>
           (\<exists>params. net_calls (snd (stripe_processPayment E sdk p w)) =
               net_calls w @ [PaymentIntentsCreate params] \<and>
             \<not> cp_confirm params \<and> cp_payment_method params = None))"
  by (simp add: stripe_processPayment_calls [OF assms])

theorem stripe_processPayment_branches_witness:
  "isValid (validatePaymentData
      (example_payment\<lparr>paymentMethodId := Some ''pm_1'', paymentIntentId := Some ''pi_9''\<rparr>)) \<and>
   (\<exists>params. net_calls (snd (stripe_processPayment example_env example_sdk
        (example_payment\<lparr>paymentMethodId := Some ''pm_1'', paymentIntentId := Some ''pi_9''\<rparr>)
        example_world)) = [PaymentIntentsCreate params] \<and>
      cp_confirm params \<and> cp_payment_method params = Some ''pm_1'') \<and>
   net_calls (snd (stripe_processPayment example_env example_sdk
        (example_payment\<lparr>paymentIntentId := Some ''pi_9''\<rparr>) example_world)) =
     [PaymentIntentsConfirm ''pi_9''] \<and>
   (\<exists>params. net_calls (snd (stripe_processPayment example_env example_sdk
        example_payment example_world)) = [PaymentIntentsCreate params] \<and>
      \<not> cp_confirm params \<and> cp_payment_method params = None)"
proof -
  have v: "isValid (validatePaymentData
      (example_payment\<lparr>paymentMethodId := Some ''pm_1'', paymentIntentId := Some ''pi_9''\<rparr>))"
      "isValid (validatePaymentData (example_payment\<lparr>paymentIntentId := Some ''pi_9''\<rparr>))"
      "isValid (validatePaymentData example_payment)"
    by (simp_all add: validatePaymentData_isValid example_payment_def)
  have e: "net_calls (example_world :: stripe_world) = []"
    by (simp add: example_world_def)
  have f: "paymentMethodId example_payment = None" "paymentIntentId example_payment = None"
    by (simp_all add: example_payment_def)
  show ?thesis
    using stripe_processPayment_branches [OF v(1), of example_env example_sdk example_world]
      stripe_processPayment_branches [OF v(2), of example_env example_sdk example_world]
      stripe_processPayment_branches [OF v(3), of example_env example_sdk example_world]
      v(1) e f
    by simp
qed

section \<open>What the shared validation examines\<close>

text \<open>
  C8, as the code has it. \<open>validatePaymentData\<close> rejects a request whose amount is
  \<open><= 0\<close> or whose amount or currency is missing (falsy); it does not examine the length
  of the currency: a request with an amount greater than 0 and a non-empty currency is
  accepted whatever the currency's length, and two requests that differ only in a
  non-empty currency are accepted or rejected together.
\<close>

theorem validatePaymentData_checks:
  "(js_le_zero (amount p) \<or> \<not> truthy_num (amount p) \<or> \<not> truthy_str (currency p) \<longrightarrow>
      \<not> isValid (validatePaymentData p)) \<and>
   ((\<exists>x. amount p = Some (Num x) \<and> 0 < x) \<and> (\<exists>c. currency p = Some c \<and> c \<noteq> []) \<longrightarrow>
      isValid (validatePaymentData p)) \<and>
   isValid (validatePaymentData (p\<lparr>currency := Some (a # cs)\<rparr>)) =
   isValid (validatePaymentData (p\<lparr>currency := Some [b]\<rparr>))"
  by (auto simp: validatePaymentData_isValid)

theorem validatePaymentData_checks_witness:
  "js_le_zero (amount (example_payment\<lparr>amount := Some (Num (- 1))\<rparr>)) \<and>
   \<not> isValid (validatePaymentData (example_payment\<lparr>amount := Some (Num (- 1))\<rparr>)) \<and>
   amount (example_payment\<lparr>currency := Some ''NAIRA''\<rparr>) = Some (Num 50) \<and>
   currency (example_payment\<lparr>currency := Some ''NAIRA''\<rparr>) = Some ''NAIRA'' \<and>
   isValid (validatePaymentData (example_payment\<lparr>currency := Some ''NAIRA''\<rparr>))"
proof -
  have a: "js_le_zero (amount (example_payment\<lparr>amount := Some (Num (- 1))\<rparr>))"
    by simp
  have b: "amount (example_payment\<lparr>currency := Some ''NAIRA''\<rparr>) = Some (Num 50)"
      "currency (example_payment\<lparr>currency := Some ''NAIRA''\<rparr>) = Some ''NAIRA''"
    by (simp_all add: example_payment_def)
  show ?thesis
    using a b
      validatePaymentData_checks [of "example_payment\<lparr>amount := Some (Num (- 1))\<rparr>"]
      validatePaymentData_checks [of "example_payment\<lparr>currency := Some ''NAIRA''\<rparr>"]
    by simp
qed

text \<open>A two-letter currency passes the validation, and \<open>processPayment\<close> goes on to
  call the provider.\<close>

theorem currency_length_unchecked:
  "length ''US'' \<noteq> 3 \<and>
   isValid (validatePaymentData (example_payment\<lparr>currency := Some ''US''\<rparr>)) \<and>
   net_calls (snd (stripe_processPayment example_env example_sdk
     (example_payment\<lparr>currency := Some ''US''\<rparr>) example_world)) \<noteq> []"
proof -
  have v: "isValid (validatePaymentData (example_payment\<lparr>currency := Some ''US''\<rparr>))"
    by (simp add: validatePaymentData_isValid example_payment_def)
  show ?thesis
    using v by (simp add: stripe_processPayment_calls [OF v])
qed

section \<open>The Factory\<close>

text \<open>
  C7. Whatever the configuration and the registry (zero gateways included),
  \<open>validateConfiguration\<close> returns an empty list of errors and \<open>isValid: true\<close>, with the
  registry's names as \<open>availableGateways\<close>; a missing credential shows as the warning
  that names it, and only there. With no credential at all the result is the two
  warnings and no gateway.
\<close>

theorem validateConfiguration_warnings_only:
  "cs_errors (validateConfiguration P F) = [] \<and>
   cs_isValid (validateConfiguration P F) \<and>
   cs_availableGateways (validateConfiguration P F) = getAvailableGateways F \<and>
   (''Stripe is not configured (STRIPE_SECRET_KEY missing)''
      \<in> set (warnings (validateConfiguration P F)) \<longleftrightarrow> \<not> truthy_str (STRIPE_SECRET_KEY P)) \<and>
   (''Paystack is not configured (PAYSTACK_SECRET_KEY missing)''
      \<in> set (warnings (validateConfiguration P F)) \<longleftrightarrow> \<not> truthy_str (PAYSTACK_SECRET_KEY P)) \<and>
   validateConfiguration empty_process_env (new_GatewayFactory empty_process_env) =
     \<lparr>cs_isValid = True, cs_errors = [],
      warnings = [''Stripe is not configured (STRIPE_SECRET_KEY missing)'',
                  ''Paystack is not configured (PAYSTACK_SECRET_KEY missing)''],
      cs_availableGateways = []\<rparr>"
  by (simp add: validateConfiguration_def Let_def getAvailableGateways_def
      new_GatewayFactory_def initializeAdapters_def empty_process_env_def)

lemma lower_stripe: "toLowerCase ''stripe'' = ''stripe''"
  by code_simp

lemma lower_paystack: "toLowerCase ''paystack'' = ''paystack''"
  by code_simp

lemma adapters_new_GatewayFactory:
  "adapters (new_GatewayFactory P) =
     (if truthy_str (STRIPE_SECRET_KEY P)
      then [(''stripe'', StripeAdapter
              \<lparr>secretKey = the (STRIPE_SECRET_KEY P), publicKey = None,
               publishableKey = STRIPE_PUBLISHABLE_KEY P,
               webhookSecret = STRIPE_WEBHOOK_SECRET P\<rparr>)]
      else []) @
     (if truthy_str (PAYSTACK_SECRET_KEY P)
      then [(''paystack'', PaystackAdapter
              \<lparr>secretKey = the (PAYSTACK_SECRET_KEY P), publicKey = PAYSTACK_PUBLIC_KEY P,
               publishableKey = None, webhookSecret = None\<rparr>)]
      else [])"
  by (simp add: new_GatewayFactory_def initializeAdapters_def Let_def)

lemma isGatewayAvailable_string:
  "isGatewayAvailable lower F (JStr n) = Inr (map_has (adapters F) (lower n))"
  by (simp add: isGatewayAvailable_def)

lemma getGateway_string:
  "getGateway lower F (JStr n) =
     (if map_has (adapters F) (lower n) then Inr (the (map_of (adapters F) (lower n)))
      else Inl (new_Error (''Unsupported payment gateway: '' @ n)))"
  by (simp add: getGateway_def)

lemma not_string_TypeError:
  assumes "\<forall>s. v \<noteq> JStr s"
  shows "isGatewayAvailable lower F v = Inl (toLowerCase_TypeError v)"
    and "getGateway lower F v = Inl (toLowerCase_TypeError v)"
  using assms by (cases v; simp add: isGatewayAvailable_def getGateway_def)+

lemma getAllGatewayCapabilities_new:
  assumes "lower ''stripe'' = ''stripe''" and "lower ''paystack'' = ''paystack''"
  shows "\<exists>cs. getAllGatewayCapabilities lower (new_GatewayFactory P) = Inr cs"
  using assms
  by (simp add: getAllGatewayCapabilities_def adapters_new_GatewayFactory
      getGatewayCapabilities_def getGateway_def map_has_def Let_def)

text \<open>
  C6, as the code has it. For a gateway name that is a string, in any letter case,
  \<open>isGatewayAvailable\<close> returns a boolean, true exactly when \<open>getGateway\<close> returns an
  adapter; when it is false \<open>getGateway\<close> throws the error
  \<open>Unsupported payment gateway: <name>\<close>. Two names with the same lower-casing get the
  same answer, and in a constructed Factory a name is available exactly when it
  lower-cases to the key of a configured adapter. For a name that is not a string both
  methods throw the TypeError of the unguarded \<open>toLowerCase\<close> call. These two errors are
  the only ones to leave the Factory: \<open>getGatewayCapabilities\<close> returns or throws one of
  them, \<open>getAllGatewayCapabilities\<close> of a constructed Factory returns, and the other
  methods have no failing step.
\<close>

theorem factory_lookup:
  "(isGatewayAvailable lower F (JStr n) = Inr True \<or>
    isGatewayAvailable lower F (JStr n) = Inr False) \<and>
   (isGatewayAvailable lower F (JStr n) = Inr True \<longleftrightarrow>
      (\<exists>a. getGateway lower F (JStr n) = Inr a)) \<and>
   (isGatewayAvailable lower F (JStr n) = Inr False \<longleftrightarrow>
      getGateway lower F (JStr n) =
        Inl (new_Error (''Unsupported payment gateway: '' @ n))) \<and>
   (lower n = lower n' \<longrightarrow>
      isGatewayAvailable lower F (JStr n) = isGatewayAvailable lower F (JStr n')) \<and>
   isGatewayAvailable lower (new_GatewayFactory P) (JStr n) =
     Inr (lower n = ''stripe'' \<and> truthy_str (STRIPE_SECRET_KEY P) \<or>
          lower n = ''paystack'' \<and> truthy_str (PAYSTACK_SECRET_KEY P)) \<and>
   ((\<forall>s. v \<noteq> JStr s) \<longrightarrow>
      isGatewayAvailable lower F v = Inl (toLowerCase_TypeError v) \<and>
      getGateway lower F v = Inl (toLowerCase_TypeError v) \<and>
      getGatewayCapabilities lower F v = Inl (toLowerCase_TypeError v)) \<and>
   ((\<exists>c. getGatewayCapabilities lower F (JStr n) = Inr c) \<or>
      getGatewayCapabilities lower F (JStr n) =
        Inl (new_Error (''Unsupported payment gateway: '' @ n))) \<and>
   (lower ''stripe'' = ''stripe'' \<and> lower ''paystack'' = ''paystack'' \<longrightarrow>
      (\<exists>cs. getAllGatewayCapabilities lower (new_GatewayFactory P) = Inr cs))"
proof (intro conjI impI)
  show "isGatewayAvailable lower F (JStr n) = Inr True \<or>
      isGatewayAvailable lower F (JStr n) = Inr False"
    by (simp add: isGatewayAvailable_string)
  show "isGatewayAvailable lower F (JStr n) = Inr True \<longleftrightarrow>
      (\<exists>a. getGateway lower F (JStr n) = Inr a)"
    by (simp add: isGatewayAvailable_string getGateway_string)
  show "isGatewayAvailable lower F (JStr n) = Inr False \<longleftrightarrow>
      getGateway lower F (JStr n) = Inl (new_Error (''Unsupported payment gateway: '' @ n))"
    by (simp add: isGatewayAvailable_string getGateway_string)
  show "isGatewayAvailable lower F (JStr n) = isGatewayAvailable lower F (JStr n')"
    if "lower n = lower n'"
    using that by (simp add: isGatewayAvailable_string)
  show "isGatewayAvailable lower (new_GatewayFactory P) (JStr n) =
      Inr (lower n = ''stripe'' \<and> truthy_str (STRIPE_SECRET_KEY P) \<or>
           lower n = ''paystack'' \<and> truthy_str (PAYSTACK_SECRET_KEY P))"
    by (auto simp: isGatewayAvailable_string map_has_def adapters_new_GatewayFactory)
  show "(\<exists>c. getGatewayCapabilities lower F (JStr n) = Inr c) \<or>
      getGatewayCapabilities lower F (JStr n) =
        Inl (new_Error (''Unsupported payment gateway: '' @ n))"
    by (simp add: getGatewayCapabilities_def getGateway_string)
  show "\<exists>cs. getAllGatewayCapabilities lower (new_GatewayFactory P) = Inr cs"
    if "lower ''stripe'' = ''stripe'' \<and> lower ''paystack'' = ''paystack''"
    using that getAllGatewayCapabilities_new [of lower P] by blast
next
  assume a: "\<forall>s. v \<noteq> JStr s"
  show "isGatewayAvailable lower F v = Inl (toLowerCase_TypeError v)"
    and g: "getGateway lower F v = Inl (toLowerCase_TypeError v)"
    using a by (rule not_string_TypeError)+
  show "getGatewayCapabilities lower F v = Inl (toLowerCase_TypeError v)"
    by (simp add: getGatewayCapabilities_def g)
qed

theorem factory_lookup_witness:
  "toLowerCase ''STRIPE'' = toLowerCase ''Stripe'' \<and>
   isGatewayAvailable toLowerCase (new_GatewayFactory example_process_env) (JStr ''STRIPE'') =
     isGatewayAvailable toLowerCase (new_GatewayFactory example_process_env)
       (JStr ''Stripe'') \<and>
   isGatewayAvailable toLowerCase (new_GatewayFactory example_process_env) (JStr ''STRIPE'') =
     Inr True \<and>
   (\<exists>a. getGateway toLowerCase (new_GatewayFactory example_process_env) (JStr ''STRIPE'') =
     Inr a) \<and>
   (\<forall>s. JBool True \<noteq> JStr s) \<and>
   getGateway toLowerCase (new_GatewayFactory example_process_env) (JBool True) =
     Inl (new_Error ''gatewayName.toLowerCase is not a function'') \<and>
   toLowerCase ''stripe'' = ''stripe'' \<and> toLowerCase ''paystack'' = ''paystack'' \<and>
   (\<exists>cs. getAllGatewayCapabilities toLowerCase (new_GatewayFactory example_process_env) =
     Inr cs)"
proof -
  have l: "toLowerCase ''STRIPE'' = ''stripe''" "toLowerCase ''Stripe'' = ''stripe''"
    by code_simp+
  have k: "truthy_str (STRIPE_SECRET_KEY example_process_env)"
    by (simp add: example_process_env_def)
  have v: "\<forall>s. JBool True \<noteq> JStr s"
    by simp
  note f = factory_lookup [of toLowerCase "new_GatewayFactory example_process_env" "''STRIPE''"
      "''Stripe''" example_process_env "JBool True"]
  have e1: "isGatewayAvailable toLowerCase (new_GatewayFactory example_process_env)
        (JStr ''STRIPE'') =
      isGatewayAvailable toLowerCase (new_GatewayFactory example_process_env)
        (JStr ''Stripe'')"
    using f l by simp
  have e2: "isGatewayAvailable toLowerCase (new_GatewayFactory example_process_env)
      (JStr ''STRIPE'') = Inr True"
    using f [THEN conjunct2, THEN conjunct2, THEN conjunct2, THEN conjunct2, THEN conjunct1]
      l k
    by simp
  have e3: "\<exists>a. getGateway toLowerCase (new_GatewayFactory example_process_env)
      (JStr ''STRIPE'') = Inr a"
    using f e2 by blast
  have e4: "getGateway toLowerCase (new_GatewayFactory example_process_env) (JBool True) =
      Inl (new_Error ''gatewayName.toLowerCase is not a function'')"
    using f v by simp
  have e5: "\<exists>cs. getAllGatewayCapabilities toLowerCase
      (new_GatewayFactory example_process_env) = Inr cs"
    using f lower_stripe lower_paystack by blast
  show ?thesis
    using l e1 e2 e3 e4 e5 lower_stripe lower_paystack
    by (simp del: ex_simps)
qed

text \<open>Asked about the number 42, \<open>isGatewayAvailable\<close> throws.\<close>

theorem isGatewayAvailable_throws:
  "isGatewayAvailable toLowerCase (new_GatewayFactory example_process_env) (JNum (Num 42)) =
     Inl (new_Error ''gatewayName.toLowerCase is not a function'')"
  by (simp add: isGatewayAvailable_def)

section \<open>The unified id\<close>

lemma substr_2_5_length:
  "length (substr_2_5 s) \<le> 5 \<and> (7 \<le> length s \<longrightarrow> length (substr_2_5 s) = 5)"
  by (auto simp: substr_2_5_def)

lemma formatResponse_form:
  "\<exists>k j. unifiedId (fst (formatResponse g E r w)) =
     ''unified_'' @ gateway (fst (formatResponse g E r w)) @ ''_'' @
       toString36 (date_now E k) @ ''_'' @ substr_2_5 (random_b36 E j)"
  by (simp add: formatResponse_eq generateUnifiedId_eq) blast

lemma formatError_form:
  "\<exists>k j. unifiedId (fst (formatError g E e w)) =
     ''unified_'' @ gateway (fst (formatError g E e w)) @ ''_'' @
       toString36 (date_now E k) @ ''_'' @ substr_2_5 (random_b36 E j)"
  by (simp add: formatError_eq generateUnifiedId_eq) blast

lemma catch_formatError_form:
  fixes t :: "(js_error + 'r unified) \<times> 'c world"
  assumes "\<And>u w'. t = (Inr u, w') \<Longrightarrow> \<exists>r (w0 :: 'c world). u = fst (formatResponse g E r w0)"
  shows "\<exists>k j. unifiedId (fst (catch_formatError g E t)) =
     ''unified_'' @ gateway (fst (catch_formatError g E t)) @ ''_'' @
       toString36 (date_now E k) @ ''_'' @ substr_2_5 (random_b36 E j)"
proof (cases t)
  case (Pair a w')
  show ?thesis
  proof (cases a)
    case (Inl e)
    with Pair show ?thesis
      using formatError_form [of g E e w'] by (simp add: catch_formatError_def)
  next
    case (Inr u)
    with Pair assms obtain r and w0 :: "'c world" where "u = fst (formatResponse g E r w0)"
      by blast
    with Pair Inr show ?thesis
      using formatResponse_form [of g E r w0] by (simp add: catch_formatError_def)
  qed
qed

lemma formatResponse_fstI:
  fixes w :: "'c world"
  shows "formatResponse g E r w = (u, w') \<Longrightarrow>
    \<exists>r' (w0 :: 'c world). u = fst (formatResponse g E r' w0)"
  by (metis fst_conv)

lemma paystack_processPayment_form:
  "\<exists>k j. unifiedId (fst (paystack_processPayment C P E fetch p w)) =
     ''unified_'' @ gateway (fst (paystack_processPayment C P E fetch p w)) @ ''_'' @
       toString36 (date_now E k) @ ''_'' @ substr_2_5 (random_b36 E j)"
  unfolding paystack_processPayment_def
  by (rule catch_formatError_form)
    (auto simp: paystack_processPayment_try_def Let_def split: if_splits prod.splits
      sum.splits option.splits intro: formatResponse_fstI)

lemma paystack_createPaymentIntent_form:
  "\<exists>k j. unifiedId (fst (paystack_createPaymentIntent C P E fetch p w)) =
     ''unified_'' @ gateway (fst (paystack_createPaymentIntent C P E fetch p w)) @ ''_'' @
       toString36 (date_now E k) @ ''_'' @ substr_2_5 (random_b36 E j)"
  unfolding paystack_createPaymentIntent_def
  by (rule catch_formatError_form)
    (auto simp: paystack_createPaymentIntent_try_def Let_def split: if_splits prod.splits
      sum.splits option.splits intro: formatResponse_fstI)

lemma paystack_processRefund_form:
  "\<exists>k j. unifiedId (fst (paystack_processRefund C E fetch rd w)) =
     ''unified_'' @ gateway (fst (paystack_processRefund C E fetch rd w)) @ ''_'' @
       toString36 (date_now E k) @ ''_'' @ substr_2_5 (random_b36 E j)"
  unfolding paystack_processRefund_def
  by (rule catch_formatError_form)
    (auto simp: paystack_processRefund_try_def Let_def split: if_splits prod.splits
      sum.splits option.splits intro: formatResponse_fstI)

lemma paystack_getPaymentStatus_form:
  "\<exists>k j. unifiedId (fst (paystack_getPaymentStatus C E fetch ref w)) =
     ''unified_'' @ gateway (fst (paystack_getPaymentStatus C E fetch ref w)) @ ''_'' @
       toString36 (date_now E k) @ ''_'' @ substr_2_5 (random_b36 E j)"
  unfolding paystack_getPaymentStatus_def
  by (rule catch_formatError_form)
    (auto simp: paystack_getPaymentStatus_try_def Let_def split: if_splits prod.splits
      sum.splits option.splits intro: formatResponse_fstI)

lemma stripe_processPayment_form:
  "\<exists>k j. unifiedId (fst (stripe_processPayment E sdk p w)) =
     ''unified_'' @ gateway (fst (stripe_processPayment E sdk p w)) @ ''_'' @
       toString36 (date_now E k) @ ''_'' @ substr_2_5 (random_b36 E j)"
  unfolding stripe_processPayment_def
  by (rule catch_formatError_form)
    (auto simp: stripe_processPayment_try_def Let_def split: if_splits prod.splits
      sum.splits option.splits intro: formatResponse_fstI)

lemma stripe_createPaymentIntent_form:
  "\<exists>k j. unifiedId (fst (stripe_createPaymentIntent E sdk p w)) =
     ''unified_'' @ gateway (fst (stripe_createPaymentIntent E sdk p w)) @ ''_'' @
       toString36 (date_now E k) @ ''_'' @ substr_2_5 (random_b36 E j)"
  unfolding stripe_createPaymentIntent_def
  by (rule catch_formatError_form)
    (auto simp: stripe_createPaymentIntent_try_def Let_def split: if_splits prod.splits
      sum.splits option.splits intro: formatResponse_fstI)

lemma toString36_example: "toString36 1700000000000 = ''loyw3v28''"
  by (simp add: toString36.simps digit36_def)

lemma lower_paystack_name: "toLowerCase paystack_name = ''paystackadapter''"
  by code_simp

lemma lower_stripe_name: "toLowerCase stripe_name = ''stripeadapter''"
  by code_simp

text \<open>
  C9, as the code has it. A unified id is \<open>unified_<gateway>_<timestamp>_<suffix>\<close>:
  the gateway is the lower-cased adapter name, the timestamp is the clock reading in base
  36 (the numeral denotes the reading), and the suffix is \<open>substr(2, 5)\<close> of the random
  number's base-36 rendering, so at most five characters and exactly five when the
  rendering has five digits after \<open>0.\<close>. Every envelope an adapter method returns carries
  an id of this form whose gateway part is the envelope's own \<open>gateway\<close> field.
\<close>

theorem unifiedId_form:
  "fst (generateUnifiedId g E w) =
     ''unified_'' @ toLowerCase g @ ''_'' @ toString36 (date_now E (clock_reads w)) @ ''_'' @
       substr_2_5 (random_b36 E (random_reads w)) \<and>
   base36_value (toString36 (date_now E (clock_reads w))) = date_now E (clock_reads w) \<and>
   length (substr_2_5 (random_b36 E (random_reads w))) \<le> 5 \<and>
   (7 \<le> length (random_b36 E (random_reads w)) \<longrightarrow>
      length (substr_2_5 (random_b36 E (random_reads w))) = 5) \<and>
   (\<exists>k j. unifiedId (fst (paystack_processPayment C P E fetch p v)) =
      ''unified_'' @ gateway (fst (paystack_processPayment C P E fetch p v)) @ ''_'' @
        toString36 (date_now E k) @ ''_'' @ substr_2_5 (random_b36 E j)) \<and>
   (\<exists>k j. unifiedId (fst (paystack_createPaymentIntent C P E fetch p v)) =
      ''unified_'' @ gateway (fst (paystack_createPaymentIntent C P E fetch p v)) @ ''_'' @
        toString36 (date_now E k) @ ''_'' @ substr_2_5 (random_b36 E j)) \<and>
   (\<exists>k j. unifiedId (fst (paystack_processRefund C E fetch rd v)) =
      ''unified_'' @ gateway (fst (paystack_processRefund C E fetch rd v)) @ ''_'' @
        toString36 (date_now E k) @ ''_'' @ substr_2_5 (random_b36 E j)) \<and>
   (\<exists>k j. unifiedId (fst (paystack_getPaymentStatus C E fetch ref v)) =
      ''unified_'' @ gateway (fst (paystack_getPaymentStatus C E fetch ref v)) @ ''_'' @
        toString36 (date_now E k) @ ''_'' @ substr_2_5 (random_b36 E j)) \<and>
   (\<exists>k j. unifiedId (fst (stripe_processPayment E sdk p u)) =
      ''unified_'' @ gateway (fst (stripe_processPayment E sdk p u)) @ ''_'' @
        toString36 (date_now E k) @ ''_'' @ substr_2_5 (random_b36 E j)) \<and>
   (\<exists>k j. unifiedId (fst (stripe_createPaymentIntent E sdk p u)) =
      ''unified_'' @ gateway (fst (stripe_createPaymentIntent E sdk p u)) @ ''_'' @
        toString36 (date_now E k) @ ''_'' @ substr_2_5 (random_b36 E j))"
proof (intro conjI)
  show "fst (generateUnifiedId g E w) =
     ''unified_'' @ toLowerCase g @ ''_'' @ toString36 (date_now E (clock_reads w)) @ ''_'' @
       substr_2_5 (random_b36 E (random_reads w))"
    by (simp add: generateUnifiedId_eq)
  show "base36_value (toString36 (date_now E (clock_reads w))) = date_now E (clock_reads w)"
    by (rule base36_value_toString36)
  show "length (substr_2_5 (random_b36 E (random_reads w))) \<le> 5"
    using substr_2_5_length by blast
  show "7 \<le> length (random_b36 E (random_reads w)) \<longrightarrow>
      length (substr_2_5 (random_b36 E (random_reads w))) = 5"
    using substr_2_5_length by blast
qed (rule paystack_processPayment_form paystack_createPaymentIntent_form
    paystack_processRefund_form paystack_getPaymentStatus_form stripe_processPayment_form
    stripe_createPaymentIntent_form)+

theorem unifiedId_form_witness:
  "7 \<le> length (random_b36 example_env (random_reads (example_world :: paystack_world))) \<and>
   fst (generateUnifiedId paystack_name example_env (example_world :: paystack_world)) =
     ''unified_paystackadapter_loyw3v28_4fzyo'' \<and>
   length (substr_2_5 (random_b36 example_env
     (random_reads (example_world :: paystack_world)))) = 5"
proof -
  have h: "7 \<le> length (random_b36 example_env (random_reads (example_world :: paystack_world)))"
    by (simp add: example_env_def)
  have t: "toString36 (date_now example_env (clock_reads (example_world :: paystack_world))) =
      ''loyw3v28''"
    by (simp add: example_env_def example_world_def toString36_example)
  have r: "substr_2_5 (random_b36 example_env
      (random_reads (example_world :: paystack_world))) = ''4fzyo''"
    by (simp add: example_env_def substr_2_5_def)
  show ?thesis
    using unifiedId_form [of paystack_name example_env "example_world :: paystack_world"]
      h t r lower_paystack_name
    by simp
qed

text \<open>When \<open>Math.random()\<close> is 0.5 its base-36 rendering is \<open>0.i\<close>, and the suffix of
  the id is the single character \<open>i\<close>.\<close>

theorem unifiedId_short_suffix:
  "fst (generateUnifiedId paystack_name (example_env\<lparr>random_b36 := (\<lambda>k. ''0.i'')\<rparr>)
      (example_world :: paystack_world)) = ''unified_paystackadapter_loyw3v28_i'' \<and>
   length (substr_2_5 ''0.i'') \<noteq> 5"
  by (simp add: generateUnifiedId_eq lower_paystack_name example_env_def example_world_def
      toString36_example substr_2_5_def)

section \<open>Webhook verification\<close>

text \<open>
  C3. \<open>verifyWebhook\<close> of either adapter returns \<open>{isValid: true, event}\<close> or
  \<open>{isValid: false, error}\<close> for every input and never an exception: an error thrown by
  the signature library comes back as \<open>isValid: false\<close> with the error's message. With
  no signature the result is \<open>isValid: false\<close>, \<open>No signature provided\<close>, and the world is
  the one the method started in: no call into the signature library and no provider
  call was made. No path makes a provider call.
\<close>

theorem verifyWebhook_never_throws:
  "((\<exists>ev. fst (stripe_verifyWebhook C constructEvent wd w) = WebhookResult True (Some ev) None) \<or>
    (\<exists>msg. fst (stripe_verifyWebhook C constructEvent wd w) =
       WebhookResult False None (Some msg))) \<and>
   (\<not> truthy_str (signature wd) \<longrightarrow>
      stripe_verifyWebhook C constructEvent wd w =
        (WebhookResult False None (Some ''No signature provided''), w)) \<and>
   (truthy_str (signature wd) \<and>
    constructEvent (wh_body wd) (the (signature wd)) (webhookSecret C) = Inl e \<longrightarrow>
      fst (stripe_verifyWebhook C constructEvent wd w) =
        WebhookResult False None (Some (e_message e))) \<and>
   net_calls (snd (stripe_verifyWebhook C constructEvent wd w)) = net_calls w \<and>
   ((\<exists>ev. fst (paystack_verifyWebhook C hmac pd v) = WebhookResult True (Some ev) None) \<or>
    (\<exists>msg. fst (paystack_verifyWebhook C hmac pd v) = WebhookResult False None (Some msg))) \<and>
   (\<not> truthy_str (signature pd) \<longrightarrow>
      paystack_verifyWebhook C hmac pd v =
        (WebhookResult False None (Some ''No signature provided''), v)) \<and>
   (truthy_str (signature pd) \<and> hmac (secretKey C) (wh_body pd) = Inl e' \<longrightarrow>
      fst (paystack_verifyWebhook C hmac pd v) =
        WebhookResult False None (Some (e_message e'))) \<and>
   net_calls (snd (paystack_verifyWebhook C hmac pd v)) = net_calls v"
proof -
  have s: "((\<exists>ev. fst (stripe_verifyWebhook C constructEvent wd w) =
        WebhookResult True (Some ev) None) \<or>
      (\<exists>msg. fst (stripe_verifyWebhook C constructEvent wd w) =
        WebhookResult False None (Some msg))) \<and>
      net_calls (snd (stripe_verifyWebhook C constructEvent wd w)) = net_calls w"
    by (simp add: stripe_verifyWebhook_def stripe_verifyWebhook_try_def catch_invalid_def
        Let_def split: sum.split)
  have p: "((\<exists>ev. fst (paystack_verifyWebhook C hmac pd v) =
        WebhookResult True (Some ev) None) \<or>
      (\<exists>msg. fst (paystack_verifyWebhook C hmac pd v) =
        WebhookResult False None (Some msg))) \<and>
      net_calls (snd (paystack_verifyWebhook C hmac pd v)) = net_calls v"
    by (simp add: paystack_verifyWebhook_def paystack_verifyWebhook_try_def catch_invalid_def
        Let_def split: sum.split)
  show ?thesis
    using s p
    by (simp add: stripe_verifyWebhook_def stripe_verifyWebhook_try_def catch_invalid_def
        paystack_verifyWebhook_def paystack_verifyWebhook_try_def new_Error_def Let_def)
qed

theorem verifyWebhook_never_throws_witness:
  "\<not> truthy_str (signature \<lparr>wh_body = ''{}'', signature = None\<rparr>) \<and>
   stripe_verifyWebhook example_config example_constructEvent
     \<lparr>wh_body = ''{}'', signature = None\<rparr> (example_world :: stripe_world) =
     (WebhookResult False None (Some ''No signature provided''), example_world) \<and>
   truthy_str (signature \<lparr>wh_body = ''{}'', signature = Some ''t=1,v1=bad''\<rparr>) \<and>
   fst (stripe_verifyWebhook example_config example_constructEvent
     \<lparr>wh_body = ''{}'', signature = Some ''t=1,v1=bad''\<rparr> (example_world :: stripe_world)) =
     WebhookResult False None
       (Some ''No signatures found matching the expected signature for payload'') \<and>
   paystack_verifyWebhook example_config example_hmac
     \<lparr>wh_body = ''{}'', signature = None\<rparr> (example_world :: paystack_world) =
     (WebhookResult False None (Some ''No signature provided''), example_world)"
proof -
  have a: "\<not> truthy_str (signature \<lparr>wh_body = ''{}'', signature = None\<rparr>)"
    by simp
  have b: "truthy_str (signature \<lparr>wh_body = ''{}'', signature = Some ''t=1,v1=bad''\<rparr>) \<and>
      example_constructEvent (wh_body \<lparr>wh_body = ''{}'', signature = Some ''t=1,v1=bad''\<rparr>)
        (the (signature \<lparr>wh_body = ''{}'', signature = Some ''t=1,v1=bad''\<rparr>))
        (webhookSecret example_config) =
      Inl (new_Error ''No signatures found matching the expected signature for payload'')"
    by (simp add: example_constructEvent_def)
  show ?thesis
    using a b
      verifyWebhook_never_throws [of example_config example_constructEvent
        "\<lparr>wh_body = ''{}'', signature = None\<rparr>" "example_world :: stripe_world" _
        example_hmac "\<lparr>wh_body = ''{}'', signature = None\<rparr>"
        "example_world :: paystack_world"]
      verifyWebhook_never_throws [of example_config example_constructEvent
        "\<lparr>wh_body = ''{}'', signature = Some ''t=1,v1=bad''\<rparr>" "example_world :: stripe_world"
        "new_Error ''No signatures found matching the expected signature for payload''"
        example_hmac "\<lparr>wh_body = ''{}'', signature = None\<rparr>"
        "example_world :: paystack_world"]
    by (simp add: new_Error_def)
qed

section \<open>The requests of the Paystack adapter\<close>

lemma net_calls_catch_formatError:
  "net_calls (snd (catch_formatError g E t)) = net_calls (snd t)"
  by (cases t) (simp add: catch_formatError_def formatError_eq split: sum.split)

lemma net_calls_makeRequest:
  "net_calls (snd (makeRequest C fetch endpoint method data w)) =
     net_calls w @
     [\<lparr>url = baseUrl @ endpoint, http_method = method,
       authorization = ''Bearer '' @ secretKey C, content_type = ''application/json'',
       body = (if data \<noteq> None \<and> (method = ''POST'' \<or> method = ''PUT'') then data else None)\<rparr>]"
  by (simp add: makeRequest_def Let_def split: fetch_outcome.split)

lemma net_calls_generateUnifiedId:
  "net_calls (snd (generateUnifiedId g E w)) = net_calls w"
  by (simp add: generateUnifiedId_eq)

lemma net_calls_formatResponse:
  "net_calls (snd (formatResponse g E r w)) = net_calls w"
  by (simp add: formatResponse_eq)

lemma paystack_processPayment_sent:
  assumes "isValid (validatePaymentData p)" and "truthy_str (customerEmail p)"
  shows "net_calls (snd (paystack_processPayment C P E fetch p w)) =
     net_calls w @
     [\<lparr>url = baseUrl @ ''/transaction/initialize'', http_method = ''POST'',
       authorization = ''Bearer '' @ secretKey C, content_type = ''application/json'',
       body = Some (InitializeBody
         \<lparr>tx_amount = js_times100 (amount p),
          tx_email = the (customerEmail p),
          tx_currency = toUpperCase (the (currency p)),
          tx_reference = fst (generateUnifiedId paystack_name E w),
          tx_callback_url =
            str_or (callbackUrl p) (template_str (BASE_URL P) @ ''/api/payments/callback''),
          tx_metadata =
            [''unified_payment_id'' \<mapsto>
               JStr (fst (generateUnifiedId paystack_name E
                 (snd (generateUnifiedId paystack_name E w)))),
             ''customer_email'' \<mapsto> JStr (the (customerEmail p))] ++ metadata p,
          tx_channels = (if truthy_str (channel p) then Some [the (channel p)] else None)\<rparr>)\<rparr>]"
  using assms
  by (simp add: paystack_processPayment_def net_calls_catch_formatError
      paystack_processPayment_try_def Let_def case_prod_beta net_calls_makeRequest
      net_calls_formatResponse net_calls_generateUnifiedId
      split: sum.split option.split)

lemma makeRequest_ok:
  assumes "fetch \<lparr>url = baseUrl @ endpoint, http_method = method,
       authorization = ''Bearer '' @ secretKey C, content_type = ''application/json'',
       body = (if data \<noteq> None \<and> (method = ''POST'' \<or> method = ''PUT'') then data else None)\<rparr> =
     FetchResponse True st res"
  shows "fst (makeRequest C fetch endpoint method data w) = Inr res"
  using assms by (simp add: makeRequest_def Let_def)

lemma reads_makeRequest:
  "clock_reads (snd (makeRequest C fetch endpoint method data w)) = clock_reads w \<and>
   random_reads (snd (makeRequest C fetch endpoint method data w)) = random_reads w"
  by (simp add: makeRequest_def Let_def split: fetch_outcome.split)

lemma reads_generateUnifiedId:
  "clock_reads (snd (generateUnifiedId g E w)) = Suc (clock_reads w) \<and>
   random_reads (snd (generateUnifiedId g E w)) = Suc (random_reads w)"
  by (simp add: generateUnifiedId_eq)

lemma fst_generateUnifiedId:
  "fst (generateUnifiedId g E w) =
     ''unified_'' @ toLowerCase g @ ''_'' @ toString36 (date_now E (clock_reads w)) @ ''_'' @
       substr_2_5 (random_b36 E (random_reads w))"
  by (simp add: generateUnifiedId_eq)

lemma formatResponse_reads:
  "formatResponse g E r w =
     (UnifiedResponse (toLowerCase g) r (date_now E (clock_reads w))
        (''unified_'' @ toLowerCase g @ ''_'' @ toString36 (date_now E (Suc (clock_reads w))) @
           ''_'' @ substr_2_5 (random_b36 E (random_reads w))),
      w\<lparr>clock_reads := Suc (Suc (clock_reads w)), random_reads := Suc (random_reads w)\<rparr>)"
  by (simp add: formatResponse_eq generateUnifiedId_eq)

lemma paystack_processPayment_ok:
  assumes v: "isValid (validatePaymentData p)" and em: "truthy_str (customerEmail p)"
    and f: "fetch (last (net_calls (snd (paystack_processPayment C P E fetch p w)))) =
      FetchResponse True st res"
    and d: "res_data res = Some d"
  shows "fst (paystack_processPayment C P E fetch p w) =
      UnifiedResponse (toLowerCase paystack_name)
        (PaymentResponse
           \<lparr>pr_transactionId = d_id d, pr_reference = d_reference d,
            pr_authorizationUrl = d_authorization_url d, pr_accessCode = d_access_code d,
            pr_status = ''pending'', pr_amount = amount p, pr_currency = currency p\<rparr>)
        (date_now E (Suc (Suc (clock_reads w))))
        (''unified_'' @ toLowerCase paystack_name @ ''_'' @
           toString36 (date_now E (Suc (Suc (Suc (clock_reads w))))) @ ''_'' @
           substr_2_5 (random_b36 E (Suc (Suc (random_reads w))))) \<and>
    random_reads (snd (paystack_processPayment C P E fetch p w)) =
      Suc (Suc (Suc (random_reads w)))"
proof -
  have f': "fst (makeRequest C fetch ''/transaction/initialize'' ''POST''
      (Some (InitializeBody
         \<lparr>tx_amount = js_times100 (amount p),
          tx_email = the (customerEmail p),
          tx_currency = toUpperCase (the (currency p)),
          tx_reference = fst (generateUnifiedId paystack_name E w),
          tx_callback_url =
            str_or (callbackUrl p) (template_str (BASE_URL P) @ ''/api/payments/callback''),
          tx_metadata =
            [''unified_payment_id'' \<mapsto>
               JStr (fst (generateUnifiedId paystack_name E
                 (snd (generateUnifiedId paystack_name E w)))),
             ''customer_email'' \<mapsto> JStr (the (customerEmail p))] ++ metadata p,
          tx_channels = (if truthy_str (channel p) then Some [the (channel p)] else None)\<rparr>))
      W) = Inr res" for W
    using f by (intro makeRequest_ok) (simp add: paystack_processPayment_sent [OF v em])
  show ?thesis
    using v em d
    by (simp add: paystack_processPayment_def paystack_processPayment_try_def
        catch_formatError_def Let_def case_prod_beta f' formatResponse_reads
        reads_makeRequest reads_generateUnifiedId)
qed

lemma paystack_createPaymentIntent_sent:
  assumes "isValid (validatePaymentData p)" and "truthy_str (customerEmail p)"
  shows "net_calls (snd (paystack_createPaymentIntent C P E fetch p w)) =
     net_calls w @
     [\<lparr>url = baseUrl @ ''/transaction/initialize'', http_method = ''POST'',
       authorization = ''Bearer '' @ secretKey C, content_type = ''application/json'',
       body = Some (InitializeBody
         \<lparr>tx_amount = js_times100 (amount p),
          tx_email = the (customerEmail p),
          tx_currency = toUpperCase (the (currency p)),
          tx_reference = fst (generateUnifiedId paystack_name E w),
          tx_callback_url =
            str_or (callbackUrl p) (template_str (BASE_URL P) @ ''/api/payments/callback''),
          tx_metadata =
            [''unified_payment_id'' \<mapsto>
               JStr (fst (generateUnifiedId paystack_name E
                 (snd (generateUnifiedId paystack_name E w)))),
             ''customer_email'' \<mapsto> JStr (the (customerEmail p))] ++ metadata p,
          tx_channels = None\<rparr>)\<rparr>]"
  using assms
  by (simp add: paystack_createPaymentIntent_def net_calls_catch_formatError
      paystack_createPaymentIntent_try_def Let_def case_prod_beta net_calls_makeRequest
      net_calls_formatResponse net_calls_generateUnifiedId
      split: sum.split option.split)

lemma paystack_createPaymentIntent_ok:
  assumes v: "isValid (validatePaymentData p)" and em: "truthy_str (customerEmail p)"
    and f: "fetch (last (net_calls (snd (paystack_createPaymentIntent C P E fetch p w)))) =
      FetchResponse True st res"
    and d: "res_data res = Some d"
  shows "fst (paystack_createPaymentIntent C P E fetch p w) =
      UnifiedResponse (toLowerCase paystack_name)
        (PaymentResponse
           \<lparr>pr_transactionId = d_id d, pr_reference = d_reference d,
            pr_authorizationUrl = d_authorization_url d, pr_accessCode = d_access_code d,
            pr_status = ''pending'', pr_amount = amount p, pr_currency = currency p\<rparr>)
        (date_now E (Suc (Suc (clock_reads w))))
        (''unified_'' @ toLowerCase paystack_name @ ''_'' @
           toString36 (date_now E (Suc (Suc (Suc (clock_reads w))))) @ ''_'' @
           substr_2_5 (random_b36 E (Suc (Suc (random_reads w))))) \<and>
    random_reads (snd (paystack_createPaymentIntent C P E fetch p w)) =
      Suc (Suc (Suc (random_reads w)))"
proof -
  have f': "fst (makeRequest C fetch ''/transaction/initialize'' ''POST''
      (Some (InitializeBody
         \<lparr>tx_amount = js_times100 (amount p),
          tx_email = the (customerEmail p),
          tx_currency = toUpperCase (the (currency p)),
          tx_reference = fst (generateUnifiedId paystack_name E w),
          tx_callback_url =
            str_or (callbackUrl p) (template_str (BASE_URL P) @ ''/api/payments/callback''),
          tx_metadata =
            [''unified_payment_id'' \<mapsto>
               JStr (fst (generateUnifiedId paystack_name E
                 (snd (generateUnifiedId paystack_name E w)))),
             ''customer_email'' \<mapsto> JStr (the (customerEmail p))] ++ metadata p,
          tx_channels = None\<rparr>))
      W) = Inr res" for W
    using f by (intro makeRequest_ok) (simp add: paystack_createPaymentIntent_sent [OF v em])
  show ?thesis
    using v em d
    by (simp add: paystack_createPaymentIntent_def paystack_createPaymentIntent_try_def
        catch_formatError_def Let_def case_prod_beta f' formatResponse_reads
        reads_makeRequest reads_generateUnifiedId)
qed





lemma paystack_processPayment_ids:
  assumes v: "isValid (validatePaymentData p)" and em: "truthy_str (customerEmail p)"
    and f: "fetch (last (net_calls (snd (paystack_processPayment C P E fetch p w)))) =
      FetchResponse True st res"
    and d: "res_data res = Some d"
  shows "map_option tx_reference
           (sent_transaction (last (net_calls (snd (paystack_processPayment C P E fetch p w))))) =
         Some (''unified_'' @ toLowerCase paystack_name @ ''_'' @
           toString36 (date_now E (clock_reads w)) @ ''_'' @
           substr_2_5 (random_b36 E (random_reads w))) \<and>
       map_option (\<lambda>td. tx_metadata td ''unified_payment_id'')
           (sent_transaction (last (net_calls (snd (paystack_processPayment C P E fetch p w))))) =
         Some (case metadata p ''unified_payment_id'' of
                 Some x \<Rightarrow> Some x
               | None \<Rightarrow>
                   Some (JStr (''unified_'' @ toLowerCase paystack_name @ ''_'' @
                     toString36 (date_now E (Suc (clock_reads w))) @ ''_'' @
                     substr_2_5 (random_b36 E (Suc (random_reads w)))))) \<and>
       unifiedId (fst (paystack_processPayment C P E fetch p w)) =
         ''unified_'' @ toLowerCase paystack_name @ ''_'' @
           toString36 (date_now E (Suc (Suc (Suc (clock_reads w))))) @ ''_'' @
           substr_2_5 (random_b36 E (Suc (Suc (random_reads w)))) \<and>
       random_reads (snd (paystack_processPayment C P E fetch p w)) = Suc (Suc (Suc (random_reads w))) \<and>
       (date_now E (Suc (Suc (Suc (clock_reads w)))) \<noteq> date_now E (clock_reads w) \<longrightarrow>
          Some (unifiedId (fst (paystack_processPayment C P E fetch p w))) \<noteq>
          map_option tx_reference
            (sent_transaction (last (net_calls (snd (paystack_processPayment C P E fetch p w))))))"
proof -
  note ok = paystack_processPayment_ok [where fetch = fetch and p = p and w = w and C = C and P = P and E = E,
      OF v em f d]
  have r: "map_option tx_reference
      (sent_transaction (last (net_calls (snd (paystack_processPayment C P E fetch p w))))) =
      Some (''unified_'' @ toLowerCase paystack_name @ ''_'' @
        toString36 (date_now E (clock_reads w)) @ ''_'' @
        substr_2_5 (random_b36 E (random_reads w)))"
    by (simp add: paystack_processPayment_sent [OF v em] sent_transaction_def fst_generateUnifiedId)
  have m: "map_option (\<lambda>td. tx_metadata td ''unified_payment_id'')
      (sent_transaction (last (net_calls (snd (paystack_processPayment C P E fetch p w))))) =
      Some (case metadata p ''unified_payment_id'' of
              Some x \<Rightarrow> Some x
            | None \<Rightarrow>
                Some (JStr (''unified_'' @ toLowerCase paystack_name @ ''_'' @
                  toString36 (date_now E (Suc (clock_reads w))) @ ''_'' @
                  substr_2_5 (random_b36 E (Suc (random_reads w))))))"
    by (simp add: paystack_processPayment_sent [OF v em] sent_transaction_def fst_generateUnifiedId
        reads_generateUnifiedId map_add_def split: option.split)
  have u: "unifiedId (fst (paystack_processPayment C P E fetch p w)) =
      ''unified_'' @ toLowerCase paystack_name @ ''_'' @
        toString36 (date_now E (Suc (Suc (Suc (clock_reads w))))) @ ''_'' @
        substr_2_5 (random_b36 E (Suc (Suc (random_reads w))))"
    using ok by simp
  have n: "date_now E (Suc (Suc (Suc (clock_reads w)))) \<noteq> date_now E (clock_reads w) \<longrightarrow>
      Some (unifiedId (fst (paystack_processPayment C P E fetch p w))) \<noteq>
      map_option tx_reference
        (sent_transaction (last (net_calls (snd (paystack_processPayment C P E fetch p w)))))"
    unfolding r u
    using unified_ids_differ [of "date_now E (Suc (Suc (Suc (clock_reads w))))"
        "date_now E (clock_reads w)" "''unified_'' @ toLowerCase paystack_name @ ''_''"]
    by auto
  show ?thesis
    using r m u n ok by blast
qed

lemma paystack_createPaymentIntent_ids:
  assumes v: "isValid (validatePaymentData p)" and em: "truthy_str (customerEmail p)"
    and f: "fetch (last (net_calls (snd (paystack_createPaymentIntent C P E fetch p w)))) =
      FetchResponse True st res"
    and d: "res_data res = Some d"
  shows "map_option tx_reference
           (sent_transaction (last (net_calls (snd (paystack_createPaymentIntent C P E fetch p w))))) =
         Some (''unified_'' @ toLowerCase paystack_name @ ''_'' @
           toString36 (date_now E (clock_reads w)) @ ''_'' @
           substr_2_5 (random_b36 E (random_reads w))) \<and>
       map_option (\<lambda>td. tx_metadata td ''unified_payment_id'')
           (sent_transaction (last (net_calls (snd (paystack_createPaymentIntent C P E fetch p w))))) =
         Some (case metadata p ''unified_payment_id'' of
                 Some x \<Rightarrow> Some x
               | None \<Rightarrow>
                   Some (JStr (''unified_'' @ toLowerCase paystack_name @ ''_'' @
                     toString36 (date_now E (Suc (clock_reads w))) @ ''_'' @
                     substr_2_5 (random_b36 E (Suc (random_reads w)))))) \<and>
       unifiedId (fst (paystack_createPaymentIntent C P E fetch p w)) =
         ''unified_'' @ toLowerCase paystack_name @ ''_'' @
           toString36 (date_now E (Suc (Suc (Suc (clock_reads w))))) @ ''_'' @
           substr_2_5 (random_b36 E (Suc (Suc (random_reads w)))) \<and>
       random_reads (snd (paystack_createPaymentIntent C P E fetch p w)) = Suc (Suc (Suc (random_reads w))) \<and>
       (date_now E (Suc (Suc (Suc (clock_reads w)))) \<noteq> date_now E (clock_reads w) \<longrightarrow>
          Some (unifiedId (fst (paystack_createPaymentIntent C P E fetch p w))) \<noteq>
          map_option tx_reference
            (sent_transaction (last (net_calls (snd (paystack_createPaymentIntent C P E fetch p w))))))"
proof -
  note ok = paystack_createPaymentIntent_ok [where fetch = fetch and p = p and w = w and C = C and P = P and E = E,
      OF v em f d]
  have r: "map_option tx_reference
      (sent_transaction (last (net_calls (snd (paystack_createPaymentIntent C P E fetch p w))))) =
      Some (''unified_'' @ toLowerCase paystack_name @ ''_'' @
        toString36 (date_now E (clock_reads w)) @ ''_'' @
        substr_2_5 (random_b36 E (random_reads w)))"
    by (simp add: paystack_createPaymentIntent_sent [OF v em] sent_transaction_def fst_generateUnifiedId)
  have m: "map_option (\<lambda>td. tx_metadata td ''unified_payment_id'')
      (sent_transaction (last (net_calls (snd (paystack_createPaymentIntent C P E fetch p w))))) =
      Some (case metadata p ''unified_payment_id'' of
              Some x \<Rightarrow> Some x
            | None \<Rightarrow>
                Some (JStr (''unified_'' @ toLowerCase paystack_name @ ''_'' @
                  toString36 (date_now E (Suc (clock_reads w))) @ ''_'' @
                  substr_2_5 (random_b36 E (Suc (random_reads w))))))"
    by (simp add: paystack_createPaymentIntent_sent [OF v em] sent_transaction_def fst_generateUnifiedId
        reads_generateUnifiedId map_add_def split: option.split)
  have u: "unifiedId (fst (paystack_createPaymentIntent C P E fetch p w)) =
      ''unified_'' @ toLowerCase paystack_name @ ''_'' @
        toString36 (date_now E (Suc (Suc (Suc (clock_reads w))))) @ ''_'' @
        substr_2_5 (random_b36 E (Suc (Suc (random_reads w))))"
    using ok by simp
  have n: "date_now E (Suc (Suc (Suc (clock_reads w)))) \<noteq> date_now E (clock_reads w) \<longrightarrow>
      Some (unifiedId (fst (paystack_createPaymentIntent C P E fetch p w))) \<noteq>
      map_option tx_reference
        (sent_transaction (last (net_calls (snd (paystack_createPaymentIntent C P E fetch p w)))))"
    unfolding r u
    using unified_ids_differ [of "date_now E (Suc (Suc (Suc (clock_reads w))))"
        "date_now E (clock_reads w)" "''unified_'' @ toLowerCase paystack_name @ ''_''"]
    by auto
  show ?thesis
    using r m u n ok by blast
qed

lemma toString36_examples:
  "toString36 1700000000001 = ''loyw3v29''"
  "toString36 1700000000003 = ''loyw3v2b''"
  by (simp_all add: toString36.simps digit36_def)

lemma example_fetch_last:
  "example_fetch req = FetchResponse True 200 \<lparr>res_message = None, res_data = Some example_data\<rparr>"
  by (simp add: example_fetch_def)

section \<open>Rounding to a double\<close>











text \<open>
  C10, as the code has it. On the success path of \<open>processPayment\<close> and of
  \<open>createPaymentIntent\<close> the Paystack adapter invokes \<open>generateUnifiedId\<close> three times:
  the reference sent to the provider is the id of the first invocation, the envelope's
  \<open>unifiedId\<close> is the id of the third, made after the provider's reply, so the two differ
  whenever their clock readings differ; the id of the second invocation is sent as
  \<open>metadata.unified_payment_id\<close> unless the caller's metadata has a key of that name,
  whose value is then sent in its place.
\<close>

theorem paystack_separate_ids:
  assumes v: "isValid (validatePaymentData p)" and em: "truthy_str (customerEmail p)"
  shows "(fetch (last (net_calls (snd (paystack_processPayment C P E fetch p w)))) =
        FetchResponse True st res \<and> res_data res = Some d \<longrightarrow>
      map_option tx_reference
          (sent_transaction (last (net_calls (snd (paystack_processPayment C P E fetch p w))))) =
        Some (''unified_'' @ toLowerCase paystack_name @ ''_'' @
          toString36 (date_now E (clock_reads w)) @ ''_'' @
          substr_2_5 (random_b36 E (random_reads w))) \<and>
      map_option (\<lambda>td. tx_metadata td ''unified_payment_id'')
          (sent_transaction (last (net_calls (snd (paystack_processPayment C P E fetch p w))))) =
        Some (case metadata p ''unified_payment_id'' of
                Some x \<Rightarrow> Some x
              | None \<Rightarrow>
                  Some (JStr (''unified_'' @ toLowerCase paystack_name @ ''_'' @
                    toString36 (date_now E (Suc (clock_reads w))) @ ''_'' @
                    substr_2_5 (random_b36 E (Suc (random_reads w)))))) \<and>
      unifiedId (fst (paystack_processPayment C P E fetch p w)) =
        ''unified_'' @ toLowerCase paystack_name @ ''_'' @
          toString36 (date_now E (Suc (Suc (Suc (clock_reads w))))) @ ''_'' @
          substr_2_5 (random_b36 E (Suc (Suc (random_reads w)))) \<and>
      random_reads (snd (paystack_processPayment C P E fetch p w)) = Suc (Suc (Suc (random_reads w))) \<and>
      (date_now E (Suc (Suc (Suc (clock_reads w)))) \<noteq> date_now E (clock_reads w) \<longrightarrow>
         Some (unifiedId (fst (paystack_processPayment C P E fetch p w))) \<noteq>
         map_option tx_reference
           (sent_transaction (last (net_calls (snd (paystack_processPayment C P E fetch p w))))))) \<and>
    (fetch (last (net_calls (snd (paystack_createPaymentIntent C P E fetch p w)))) =
        FetchResponse True st res \<and> res_data res = Some d \<longrightarrow>
      map_option tx_reference
          (sent_transaction (last (net_calls (snd (paystack_createPaymentIntent C P E fetch p w))))) =
        Some (''unified_'' @ toLowerCase paystack_name @ ''_'' @
          toString36 (date_now E (clock_reads w)) @ ''_'' @
          substr_2_5 (random_b36 E (random_reads w))) \<and>
      map_option (\<lambda>td. tx_metadata td ''unified_payment_id'')
          (sent_transaction (last (net_calls (snd (paystack_createPaymentIntent C P E fetch p w))))) =
        Some (case metadata p ''unified_payment_id'' of
                Some x \<Rightarrow> Some x
              | None \<Rightarrow>
                  Some (JStr (''unified_'' @ toLowerCase paystack_name @ ''_'' @
                    toString36 (date_now E (Suc (clock_reads w))) @ ''_'' @
                    substr_2_5 (random_b36 E (Suc (random_reads w)))))) \<and>
      unifiedId (fst (paystack_createPaymentIntent C P E fetch p w)) =
        ''unified_'' @ toLowerCase paystack_name @ ''_'' @
          toString36 (date_now E (Suc (Suc (Suc (clock_reads w))))) @ ''_'' @
          substr_2_5 (random_b36 E (Suc (Suc (random_reads w)))) \<and>
      random_reads (snd (paystack_createPaymentIntent C P E fetch p w)) = Suc (Suc (Suc (random_reads w))) \<and>
      (date_now E (Suc (Suc (Suc (clock_reads w)))) \<noteq> date_now E (clock_reads w) \<longrightarrow>
         Some (unifiedId (fst (paystack_createPaymentIntent C P E fetch p w))) \<noteq>
         map_option tx_reference
           (sent_transaction (last (net_calls (snd (paystack_createPaymentIntent C P E fetch p w)))))))"
proof (intro conjI impI)
qed (use paystack_processPayment_ids [where fetch = fetch and p = p and w = w and C = C
        and P = P and E = E and st = st and res = res and d = d, OF v em]
      paystack_createPaymentIntent_ids [where fetch = fetch and p = p and w = w and C = C
        and P = P and E = E and st = st and res = res and d = d, OF v em]
    in blast)+

theorem paystack_separate_ids_witness:
  "isValid (validatePaymentData example_payment) \<and>
   truthy_str (customerEmail example_payment) \<and>
   map_option tx_reference
     (sent_transaction (last (net_calls (snd (paystack_processPayment example_config
        example_process_env example_env example_fetch example_payment example_world))))) =
     Some ''unified_paystackadapter_loyw3v28_4fzyo'' \<and>
   map_option (\<lambda>td. tx_metadata td ''unified_payment_id'')
     (sent_transaction (last (net_calls (snd (paystack_processPayment example_config
        example_process_env example_env example_fetch example_payment example_world))))) =
     Some (Some (JStr ''unified_paystackadapter_loyw3v29_4fzyo'')) \<and>
   unifiedId (fst (paystack_processPayment example_config example_process_env example_env
        example_fetch example_payment example_world)) =
     ''unified_paystackadapter_loyw3v2b_4fzyo''"
proof -
  have v: "isValid (validatePaymentData example_payment)"
    by (simp add: validatePaymentData_isValid example_payment_def)
  have em: "truthy_str (customerEmail example_payment)"
    by (simp add: example_payment_def)
  have md: "metadata example_payment ''unified_payment_id'' = None"
    by (simp add: example_payment_def)
  have t: "toString36 (date_now example_env (clock_reads (example_world :: paystack_world))) =
        ''loyw3v28''"
      "toString36 (date_now example_env
        (Suc (clock_reads (example_world :: paystack_world)))) = ''loyw3v29''"
      "toString36 (date_now example_env
        (Suc (Suc (Suc (clock_reads (example_world :: paystack_world)))))) = ''loyw3v2b''"
    by (simp_all add: example_env_def example_world_def toString36_example
        toString36_examples)
  have r: "substr_2_5 (random_b36 example_env k) = ''4fzyo''" for k
    by (simp add: example_env_def substr_2_5_def)
  show ?thesis
    using paystack_separate_ids [OF v em, where fetch = example_fetch and C = example_config
        and P = example_process_env and E = example_env and w = example_world
        and st = 200 and d = example_data
        and res = "\<lparr>res_message = None, res_data = Some example_data\<rparr>"]
      v em md t r lower_paystack_name example_fetch_last
    by simp
qed

text \<open>With \<open>unified_payment_id\<close> among the caller's metadata, the value sent under that
  key is the caller's, not an id of \<open>generateUnifiedId\<close>.\<close>

theorem caller_metadata_overrides_id:
  "map_option (\<lambda>td. tx_metadata td ''unified_payment_id'')
     (sent_transaction (last (net_calls (snd (paystack_processPayment example_config
        example_process_env example_env example_fetch
        (example_payment\<lparr>metadata := [''unified_payment_id'' \<mapsto> JStr ''order-1'']\<rparr>)
        example_world))))) = Some (Some (JStr ''order-1'')) \<and>
   JStr ''order-1'' \<noteq>
     JStr (fst (generateUnifiedId paystack_name example_env
       (snd (generateUnifiedId paystack_name example_env (example_world :: paystack_world)))))"
proof -
  have v: "isValid (validatePaymentData
      (example_payment\<lparr>metadata := [''unified_payment_id'' \<mapsto> JStr ''order-1'']\<rparr>))"
    by (simp add: validatePaymentData_isValid example_payment_def)
  have em: "truthy_str (customerEmail
      (example_payment\<lparr>metadata := [''unified_payment_id'' \<mapsto> JStr ''order-1'']\<rparr>))"
    by (simp add: example_payment_def)
  show ?thesis
    by (simp add: paystack_processPayment_sent [OF v em] sent_transaction_def
        fst_generateUnifiedId)
qed

end
